theory Spec2Isabelle
  imports Complex_Main "HOL-Library.Word"
begin

section \<open>Fixed-size linear algebra\<close>

text \<open>
  The node computes with \<open>Eigen::Vector3d\<close>, \<open>Eigen::Matrix3d\<close> and matrices whose
  dimensions involve \<open>kStateDim\<close>. A \<open>double\<close> is modelled as a real number:
  infinities and NaN are outside the model, and so is rounding wherever no branch of
  the node depends on it. The fixed-size types are datatypes of their
  coefficients (a \<open>mat3\<close> is given by its rows); the larger matrices are given by their
  coefficient function \<open>M i j\<close>, read only at indices inside their dimensions.
\<close>

datatype vec3 = Vec3 real real real

datatype mat3 = Mat3 vec3 vec3 vec3

type_synonym dvec = "nat \<Rightarrow> real"

type_synonym dmat = "nat \<Rightarrow> nat \<Rightarrow> real"

fun vcoeff :: "vec3 \<Rightarrow> nat \<Rightarrow> real" where
  "vcoeff (Vec3 x y z) i = (if i = 0 then x else if i = 1 then y else z)"

fun mrow :: "mat3 \<Rightarrow> nat \<Rightarrow> vec3" where
  "mrow (Mat3 a b c) i = (if i = 0 then a else if i = 1 then b else c)"

definition mcoeff :: "mat3 \<Rightarrow> nat \<Rightarrow> nat \<Rightarrow> real" where
  "mcoeff m i j = vcoeff (mrow m i) j"

definition to_vec3 :: "dvec \<Rightarrow> vec3" where
  "to_vec3 f = Vec3 (f 0) (f 1) (f 2)"

definition to_mat3 :: "dmat \<Rightarrow> mat3" where
  "to_mat3 f = Mat3 (to_vec3 (f 0)) (to_vec3 (f 1)) (to_vec3 (f 2))"

definition vzero :: vec3 where
  "vzero = Vec3 0 0 0"

fun vadd :: "vec3 \<Rightarrow> vec3 \<Rightarrow> vec3" where
  "vadd (Vec3 a b c) (Vec3 x y z) = Vec3 (a + x) (b + y) (c + z)"

fun vsub :: "vec3 \<Rightarrow> vec3 \<Rightarrow> vec3" where
  "vsub (Vec3 a b c) (Vec3 x y z) = Vec3 (a - x) (b - y) (c - z)"

fun vneg :: "vec3 \<Rightarrow> vec3" where
  "vneg (Vec3 x y z) = Vec3 (- x) (- y) (- z)"

fun vscale :: "real \<Rightarrow> vec3 \<Rightarrow> vec3" where
  "vscale k (Vec3 x y z) = Vec3 (k * x) (k * y) (k * z)"

fun vdot :: "vec3 \<Rightarrow> vec3 \<Rightarrow> real" where
  "vdot (Vec3 a b c) (Vec3 x y z) = a * x + b * y + c * z"

definition vnorm :: "vec3 \<Rightarrow> real" where
  "vnorm v = sqrt (vdot v v)"

definition mzero :: mat3 where
  "mzero = Mat3 vzero vzero vzero"

definition mident :: mat3 where
  "mident = Mat3 (Vec3 1 0 0) (Vec3 0 1 0) (Vec3 0 0 1)"

fun mneg :: "mat3 \<Rightarrow> mat3" where
  "mneg (Mat3 a b c) = Mat3 (vneg a) (vneg b) (vneg c)"

fun madd :: "mat3 \<Rightarrow> mat3 \<Rightarrow> mat3" where
  "madd (Mat3 a b c) (Mat3 x y z) = Mat3 (vadd a x) (vadd b y) (vadd c z)"

fun mscale :: "real \<Rightarrow> mat3 \<Rightarrow> mat3" where
  "mscale k (Mat3 a b c) = Mat3 (vscale k a) (vscale k b) (vscale k c)"

fun mat_vec :: "mat3 \<Rightarrow> vec3 \<Rightarrow> vec3" where
  "mat_vec (Mat3 a b c) v = Vec3 (vdot a v) (vdot b v) (vdot c v)"

fun mtranspose :: "mat3 \<Rightarrow> mat3" where
  "mtranspose (Mat3 (Vec3 a b c) (Vec3 d e f) (Vec3 g h i)) =
     Mat3 (Vec3 a d g) (Vec3 b e h) (Vec3 c f i)"

definition mat_mul :: "mat3 \<Rightarrow> mat3 \<Rightarrow> mat3" where
  "mat_mul m n =
     (let t = mtranspose n
      in Mat3 (mat_vec t (mrow m 0)) (mat_vec t (mrow m 1)) (mat_vec t (mrow m 2)))"

fun det3 :: "mat3 \<Rightarrow> real" where
  "det3 (Mat3 (Vec3 a b c) (Vec3 d e f) (Vec3 g h i)) =
     a * (e * i - f * h) - b * (d * i - f * g) + c * (d * h - e * g)"

fun adjugate3 :: "mat3 \<Rightarrow> mat3" where
  "adjugate3 (Mat3 (Vec3 a b c) (Vec3 d e f) (Vec3 g h i)) =
     Mat3 (Vec3 (e * i - f * h) (c * h - b * i) (b * f - c * e))
          (Vec3 (f * g - d * i) (a * i - c * g) (c * d - a * f))
          (Vec3 (d * h - e * g) (b * g - a * h) (a * e - b * d))"

text \<open>The inverse of a 3x3 matrix by cofactors; a singular matrix has none.\<close>

definition inverse3 :: "mat3 \<Rightarrow> mat3 option" where
  "inverse3 m = (if det3 m = 0 then None else Some (mscale (1 / det3 m) (adjugate3 m)))"

text \<open>A valid rotation: orthonormal with determinant \<open>+1\<close>.\<close>

definition is_rotation :: "mat3 \<Rightarrow> bool" where
  "is_rotation r \<longleftrightarrow>
     mat_mul (mtranspose r) r = mident \<and> mat_mul r (mtranspose r) = mident \<and> det3 r = 1"

text \<open>
  Modelled from the spec: \<open>cg::skew_matrix\<close> is declared in a header that is missing
  from the source files; the spec calls it \<open>skew(leverArm)\<close>, the cross-product matrix
  of a 3-vector.
\<close>

fun skew_matrix :: "vec3 \<Rightarrow> mat3" where
  "skew_matrix (Vec3 x y z) = Mat3 (Vec3 0 (- z) y) (Vec3 z 0 (- x)) (Vec3 (- y) x 0)"

section \<open>Matrices over the error state\<close>

text \<open>
  Modelled from the spec: the constant \<open>kStateDim\<close> is declared in the filter's header,
  which is missing from the source files. The spec fixes the error state at 15
  dimensions: position, velocity, orientation, accelerometer bias and gyroscope bias
  errors, 3 each.
\<close>

definition kStateDim :: nat where
  "kStateDim = 15"

definition setZero :: dmat where
  "setZero = (\<lambda>i j. 0)"

text \<open>\<open>M.block<3, 3>(r, c)\<close>, read and assigned.\<close>

definition block33 :: "dmat \<Rightarrow> nat \<Rightarrow> nat \<Rightarrow> mat3" where
  "block33 M r c = to_mat3 (\<lambda>i j. M (r + i) (c + j))"

definition set_block33 :: "dmat \<Rightarrow> nat \<Rightarrow> nat \<Rightarrow> mat3 \<Rightarrow> dmat" where
  "set_block33 M r c B =
     (\<lambda>i j. if r \<le> i \<and> i < r + 3 \<and> c \<le> j \<and> j < c + 3 then mcoeff B (i - r) (j - c)
            else M i j)"

text \<open>\<open>v.block<3, 1>(r, 0)\<close> of a column vector.\<close>

definition segment3 :: "dvec \<Rightarrow> nat \<Rightarrow> vec3" where
  "segment3 v r = to_vec3 (\<lambda>i. v (r + i))"

definition sum_upto :: "nat \<Rightarrow> (nat \<Rightarrow> real) \<Rightarrow> real" where
  "sum_upto n f = sum_list (map f [0..<n])"

text \<open>Products: an \<open>r\<times>n\<close> matrix times an \<open>n\<times>c\<close> matrix, with the inner dimension given.\<close>

definition dmat_mul :: "nat \<Rightarrow> dmat \<Rightarrow> dmat \<Rightarrow> dmat" where
  "dmat_mul n A B = (\<lambda>i j. sum_upto n (\<lambda>k. A i k * B k j))"

definition dtranspose :: "dmat \<Rightarrow> dmat" where
  "dtranspose A = (\<lambda>i j. A j i)"

definition dmat_vec3 :: "dmat \<Rightarrow> vec3 \<Rightarrow> dvec" where
  "dmat_vec3 A v = (\<lambda>i. sum_upto 3 (\<lambda>k. A i k * vcoeff v k))"

definition of_mat3 :: "mat3 \<Rightarrow> dmat" where
  "of_mat3 m = (\<lambda>i j. mcoeff m i j)"

definition dident :: dmat where
  "dident = (\<lambda>i j. if i = j then 1 else 0)"

definition dsub :: "dmat \<Rightarrow> dmat \<Rightarrow> dmat" where
  "dsub A B = (\<lambda>i j. A i j - B i j)"

section \<open>Double-precision rounding\<close>

text \<open>
  Arithmetic on doubles is modelled exactly, except where the node branches on its
  result: the synchronization test of line 94. There the difference of the two stamps is
  rounded as IEEE 754 binary64 does, to the nearest double with ties to the even
  significand. A double of magnitude \<open>m\<close> is a multiple of \<open>2\<close> to the power
  \<open>double_exponent m - 52\<close>; the exponent stops at -1022, where the subnormal numbers
  begin. Overflow is not modelled: a difference beyond the largest double is infinite
  in the code and large in the model, and compares with 0.5 in the same way.
\<close>

definition round_half_even :: "real \<Rightarrow> int" where
  "round_half_even y =
     (let f = \<lfloor>y\<rfloor>; d = y - of_int f
      in if d < 1 / 2 then f else if 1 / 2 < d then f + 1 else if even f then f else f + 1)"

definition double_exponent :: "real \<Rightarrow> int" where
  "double_exponent m = max \<lfloor>log 2 m\<rfloor> (- 1022)"

definition round_to_double :: "real \<Rightarrow> real" where
  "round_to_double x =
     (if x = 0 then 0
      else let ulp = 2 powi (double_exponent \<bar>x\<bar> - 52)
           in sgn x * (ulp * of_int (round_half_even (\<bar>x\<bar> / ulp))))"

section \<open>Messages and filter data\<close>

text \<open>\<open>boost::array<double, 9>\<close>, the covariance field of a \<open>NavSatFix\<close> message.\<close>

datatype array9 = Array9 real real real real real real real real real

fun array9_at :: "array9 \<Rightarrow> nat \<Rightarrow> real" where
  "array9_at (Array9 a0 a1 a2 a3 a4 a5 a6 a7 a8) i =
     (if i = 0 then a0 else if i = 1 then a1 else if i = 2 then a2 else if i = 3 then a3
      else if i = 4 then a4 else if i = 5 then a5 else if i = 6 then a6 else if i = 7 then a7
      else a8)"

text \<open>
  \<open>Eigen::Map<const Eigen::Matrix3d>(data)\<close>: \<open>Matrix3d\<close> is stored column by column, so
  coefficient \<open>(i, j)\<close> is \<open>data[i + 3 * j]\<close>.
\<close>

definition map_matrix3d :: "array9 \<Rightarrow> mat3" where
  "map_matrix3d a = to_mat3 (\<lambda>i j. array9_at a (i + 3 * j))"

text \<open>\<open>sensor_msgs::NavSatFix\<close>: \<open>status.status\<close> is an \<open>int8\<close>; the stamp is read in seconds.\<close>

record NavSatFix =
  status :: "8 word"
  stamp :: real
  latitude :: real
  longitude :: real
  altitude :: real
  position_covariance :: array9

record ImuData =
  imu_timestamp :: real
  acc :: vec3
  gyr :: vec3

record GpsData =
  gps_timestamp :: real
  lla :: vec3
  gps_cov :: mat3

text \<open>
  Modelled from the spec: the declaration of the filter state \<open>State\<close> is in the filter's
  header, which is missing from the source files. The node reads and writes
  \<open>timestamp\<close>, \<open>p_GI\<close>, \<open>v_GI\<close>, \<open>r_GI\<close> and \<open>cov\<close>; the spec's nominal state adds the
  accelerometer and gyroscope biases.
\<close>

record State =
  timestamp :: real
  p_GI :: vec3
  v_GI :: vec3
  r_GI :: mat3
  acc_bias :: vec3
  gyr_bias :: vec3
  cov :: dmat

text \<open>
  The members of the filter object \<open>KF\<close> that the node touches (its declaration is
  missing from the source files). \<open>last_imu_ptr\<close> is a pointer that may be null.
\<close>

record KF =
  initialized :: bool
  imu_buf :: "ImuData list"
  last_imu_ptr :: "ImuData option"
  state_ptr :: State

section \<open>Filter operations declared outside the node's source file\<close>

text \<open>
  Modelled from the spec: the rotation corresponding to a 3-element orientation-error
  correction (the exponential map behind \<open>State::operator+\<close>, which is missing from
  the source files): the rotation by the vector's norm about its direction, and the
  identity for the zero vector.
\<close>

definition rotation_of :: "vec3 \<Rightarrow> mat3" where
  "rotation_of phi =
     (let angle = vnorm phi
      in if angle = 0 then mident
         else let k = skew_matrix (vscale (1 / angle) phi)
              in madd (madd mident (mscale (sin angle) k))
                      (mscale (1 - cos angle) (mat_mul k k)))"

text \<open>
  Modelled from the spec: \<open>State::operator+\<close> is missing from the source files. Spec 4.4
  step 7: position, velocity and bias corrections are additive; the orientation
  correction is applied by right-composing the nominal orientation with the rotation
  corresponding to the 3-element orientation-error correction. The error state is
  ordered position, velocity, orientation, accelerometer bias, gyroscope bias.
\<close>

definition state_plus :: "State \<Rightarrow> dvec \<Rightarrow> State" where
  "state_plus s delta_x =
     s\<lparr>p_GI := vadd (p_GI s) (segment3 delta_x 0),
       v_GI := vadd (v_GI s) (segment3 delta_x 3),
       r_GI := mat_mul (r_GI s) (rotation_of (segment3 delta_x 6)),
       acc_bias := vadd (acc_bias s) (segment3 delta_x 9),
       gyr_bias := vadd (gyr_bias s) (segment3 delta_x 12)\<rparr>"

text \<open>
  What the node takes from outside its source file without the spec fixing it: the two
  geodetic conversions \<open>cg::lla2enu\<close> and \<open>cg::enu2lla\<close> (anchor first), the levelling
  computation of the initialization procedure (it may fail), the constant
  \<open>kImuBufSize\<close>, and what the inversion inside the gain computation returns for a
  singular matrix.
\<close>

record externals =
  lla2enu :: "vec3 \<Rightarrow> vec3 \<Rightarrow> vec3"
  enu2lla :: "vec3 \<Rightarrow> vec3 \<Rightarrow> vec3"
  levelling :: "ImuData list \<Rightarrow> mat3 option"
  kImuBufSize :: nat
  singular_inverse :: "mat3 \<Rightarrow> mat3"

text \<open>
  Modelled from the spec: \<open>KF::update_K\<close> is missing from the source files. Spec 4.4
  step 5: \<open>K = P H\<^sup>T (H P H\<^sup>T + R)\<^sup>-\<^sup>1\<close>, with \<open>P\<close> the error covariance of the state. The
  node calls it without any guard (lines 129 to 132), so the update goes on when the
  innovation covariance is singular: the formula has no value there, and the gain is
  then computed from \<open>singular_inverse\<close>.
\<close>

definition update_K :: "externals \<Rightarrow> KF \<Rightarrow> dmat \<Rightarrow> mat3 \<Rightarrow> dmat" where
  "update_K ext kf H R =
     (let P = cov (state_ptr kf);
          PHt = dmat_mul kStateDim P (dtranspose H);
          S = madd (to_mat3 (dmat_mul kStateDim H PHt)) R;
          S_inv = (case inverse3 S of None \<Rightarrow> singular_inverse ext S | Some m \<Rightarrow> m)
      in dmat_mul 3 PHt (of_mat3 S_inv))"

text \<open>
  Modelled from the spec: \<open>KF::update_P\<close> is missing from the source files. Spec 4.4
  step 6: \<open>P \<leftarrow> (I - K H) P\<close>.
\<close>

definition update_P :: "KF \<Rightarrow> dmat \<Rightarrow> mat3 \<Rightarrow> dmat \<Rightarrow> KF" where
  "update_P kf H R K =
     kf\<lparr>state_ptr := (state_ptr kf)
          \<lparr>cov := dmat_mul kStateDim (dsub dident (dmat_mul 3 K H)) (cov (state_ptr kf))\<rparr>\<rparr>"

text \<open>
  Modelled from the spec: \<open>KF::init_rot_from_imudata\<close> is missing from the source files.
  Spec 4.2 and 7: when the orientation levelling cannot be computed, initialization does
  not proceed and the filter stays uninitialized; otherwise the orientation is set from
  the buffered window and the filter is initialized. The result pairs the returned flag
  with the filter after the call.
\<close>

definition init_rot_from_imudata :: "externals \<Rightarrow> KF \<Rightarrow> bool \<times> KF" where
  "init_rot_from_imudata ext kf =
     (case levelling ext (imu_buf kf) of
        None \<Rightarrow> (False, kf)
      | Some r \<Rightarrow> (True, kf\<lparr>initialized := True, state_ptr := (state_ptr kf)\<lparr>r_GI := r\<rparr>\<rparr>))"

section \<open>The fusion node\<close>

text \<open>
  What the node sends out. A rotation is published and logged as the quaternion Eigen
  makes of the rotation matrix; that library conversion is kept symbolic.
\<close>

datatype quaternion = Quaterniond mat3

record Pose =
  position :: vec3
  orientation :: quaternion

record Header =
  frame_id :: string
  header_stamp :: real

record PoseStamped =
  ps_header :: Header
  ps_pose :: Pose

record Path =
  path_header :: Header
  poses :: "PoseStamped list"

record Odometry =
  odom_header :: Header
  odom_pose :: Pose
  pose_covariance :: "real list"
  twist_linear :: vec3

text \<open>A line of \<open>fusion_gps.csv\<close> and of \<open>fusion_state.csv\<close>: the numbers written, in order.\<close>

datatype gps_line = GpsLine real real real real

datatype state_line = StateLine real vec3 quaternion vec3

datatype console_line =
  BadGpsMessage | NotEnoughImuData | NotSynchronized | SystemInitialized

text \<open>
  The members of \<open>FusionNode\<close>, with what it has published on its two topics, written to
  its two files and printed so far.
\<close>

record FusionNode =
  kf_ptr :: KF
  init_lla :: vec3
  I_p_Gps :: vec3
  nav_path :: Path
  odom_pub :: "Odometry list"
  path_pub :: "Path list"
  file_gps :: "gps_line list"
  file_state :: "state_line list"
  console :: "console_line list"

text \<open>
  The constructor. The filter object it makes (\<open>KF\<close>'s constructor and \<open>set_cov\<close> are
  missing from the source files) and the indeterminate initial value of \<open>init_lla_\<close> are
  arguments; \<open>I_p_Gps_\<close> has its default member initializer.
\<close>

definition FusionNode_new :: "KF \<Rightarrow> vec3 \<Rightarrow> FusionNode" where
  "FusionNode_new kf0 lla0 =
     \<lparr>kf_ptr = kf0, init_lla = lla0, I_p_Gps = Vec3 0 0 0,
      nav_path = \<lparr>path_header = \<lparr>frame_id = [], header_stamp = 0\<rparr>, poses = []\<rparr>,
      odom_pub = [], path_pub = [], file_gps = [], file_state = [], console = []\<rparr>"

text \<open>
  \<open>Eigen::Matrix<double, 6, 6, Eigen::RowMajor> P_imu_pose = Zero(); P_imu_pose << P_pp,
  P_po, P_op, P_oo\<close>: the comma initializer places the blocks left to right and starts
  a new row of blocks when a row is full.
\<close>

definition comma_init_blocks :: "mat3 \<Rightarrow> mat3 \<Rightarrow> mat3 \<Rightarrow> mat3 \<Rightarrow> dmat" where
  "comma_init_blocks A B C D =
     set_block33 (set_block33 (set_block33 (set_block33 setZero 0 0 A) 0 3 B) 3 0 C) 3 3 D"

text \<open>\<open>M.data()[i]\<close> of a row-major matrix with \<open>cols\<close> columns.\<close>

definition data_row_major :: "nat \<Rightarrow> dmat \<Rightarrow> nat \<Rightarrow> real" where
  "data_row_major cols M i = M (i div cols) (i mod cols)"

text \<open>Lines 154 to 160 of the source: the covariance array of the published odometry.\<close>

definition pose_covariance_of :: "dmat \<Rightarrow> real list" where
  "pose_covariance_of P =
     (let P_pp = block33 P 0 0;
          P_po = block33 P 0 6;
          P_op = block33 P 6 0;
          P_oo = block33 P 6 6;
          P_imu_pose = comma_init_blocks P_pp P_po P_op P_oo
      in map (\<lambda>i. data_row_major 6 P_imu_pose i) [0..<36])"

text \<open>\<open>publish_save_state\<close>; \<open>now\<close> is what \<open>ros::Time::now()\<close> returns.\<close>

definition publish_save_state :: "externals \<Rightarrow> real \<Rightarrow> FusionNode \<Rightarrow> FusionNode" where
  "publish_save_state ext now node =
     (let st = state_ptr (kf_ptr node);
          hdr = \<lparr>frame_id = ''global'', header_stamp = now\<rparr>;
          pose = \<lparr>position = p_GI st, orientation = Quaterniond (r_GI st)\<rparr>;
          odom_msg = \<lparr>odom_header = hdr, odom_pose = pose,
                      pose_covariance = pose_covariance_of (cov st),
                      twist_linear = v_GI st\<rparr>;
          pose_stamped = \<lparr>ps_header = hdr, ps_pose = pose\<rparr>;
          path = \<lparr>path_header = hdr, poses = poses (nav_path node) @ [pose_stamped]\<rparr>;
          lla_out = enu2lla ext (init_lla node) (p_GI st)
      in node\<lparr>nav_path := path,
              odom_pub := odom_pub node @ [odom_msg],
              path_pub := path_pub node @ [path],
              file_state := file_state node @
                [StateLine (timestamp st) (p_GI st) (Quaterniond (r_GI st)) lla_out]\<rparr>)"

text \<open>Lines 80 to 85: the fix data taken from the message.\<close>

definition gps_data_of :: "NavSatFix \<Rightarrow> GpsData" where
  "gps_data_of gps_msg =
     \<lparr>gps_timestamp = stamp gps_msg,
      lla = Vec3 (latitude gps_msg) (longitude gps_msg) (altitude gps_msg),
      gps_cov = map_matrix3d (position_covariance gps_msg)\<rparr>"

text \<open>Line 118, right operand: where the state expects the position sensor.\<close>

definition predicted_position :: "FusionNode \<Rightarrow> vec3" where
  "predicted_position node =
     (let st = state_ptr (kf_ptr node)
      in vadd (p_GI st) (mat_vec (r_GI st) (I_p_Gps node)))"

text \<open>Lines 110 to 118: the residual of a fix against the state.\<close>

definition gps_residual :: "externals \<Rightarrow> FusionNode \<Rightarrow> GpsData \<Rightarrow> vec3" where
  "gps_residual ext node gps_data =
     (let p_G_Gps = lla2enu ext (init_lla node) (lla gps_data)
      in vsub p_G_Gps (predicted_position node))"

text \<open>Lines 121 to 124: the measurement Jacobian.\<close>

definition gps_jacobian :: "FusionNode \<Rightarrow> dmat" where
  "gps_jacobian node =
     (let H0 = setZero;
          H1 = set_block33 H0 0 0 mident;
          H2 = set_block33 H1 0 6
                 (mat_mul (mneg (r_GI (state_ptr (kf_ptr node)))) (skew_matrix (I_p_Gps node)))
      in H2)"

text \<open>Lines 110 to 140: the measurement update of an initialized filter.\<close>

definition gps_update :: "externals \<Rightarrow> real \<Rightarrow> FusionNode \<Rightarrow> GpsData \<Rightarrow> FusionNode" where
  "gps_update ext now node gps_data =
     (let residual = gps_residual ext node gps_data;
          H = gps_jacobian node;
          R = gps_cov gps_data;
          K = update_K ext (kf_ptr node) H R;
          kf1 = update_P (kf_ptr node) H R K;
          kf2 = kf1\<lparr>state_ptr := state_plus (state_ptr kf1) (dmat_vec3 K residual)\<rparr>;
          node1 = publish_save_state ext now (node\<lparr>kf_ptr := kf2\<rparr>)
      in node1\<lparr>file_gps := file_gps node1 @
                 [GpsLine (gps_timestamp gps_data) (vcoeff (lla gps_data) 0)
                    (vcoeff (lla gps_data) 1) (vcoeff (lla gps_data) 2)]\<rparr>)"

text \<open>What stops the callback outside the model: \<open>back()\<close> of an empty buffer.\<close>

datatype fault = EmptyBufferBack

text \<open>
  Lines 87 to 108: a fix received by a filter that is not initialized. Line 94 subtracts
  two doubles and compares the absolute value of the rounded difference with 0.5.
\<close>

definition gps_initialize :: "externals \<Rightarrow> FusionNode \<Rightarrow> GpsData \<Rightarrow> fault + FusionNode" where
  "gps_initialize ext node gps_data =
     (let kf = kf_ptr node
      in if length (imu_buf kf) < kImuBufSize ext
         then Inr (node\<lparr>console := console node @ [NotEnoughImuData]\<rparr>)
         else if imu_buf kf = [] then Inl EmptyBufferBack
         else (let back = last (imu_buf kf);
                   kf1 = kf\<lparr>last_imu_ptr := Some back\<rparr>
               in if \<bar>round_to_double (gps_timestamp gps_data - imu_timestamp back)\<bar> > 0.5
                  then Inr (node\<lparr>kf_ptr := kf1, console := console node @ [NotSynchronized]\<rparr>)
                  else (let kf2 = kf1\<lparr>state_ptr :=
                                    (state_ptr kf1)\<lparr>timestamp := imu_timestamp back\<rparr>\<rparr>;
                            (ok, kf3) = init_rot_from_imudata ext kf2
                        in if \<not> ok then Inr (node\<lparr>kf_ptr := kf3\<rparr>)
                           else Inr (node\<lparr>kf_ptr := kf3, init_lla := lla gps_data,
                                         console := console node @ [SystemInitialized]\<rparr>))))"

text \<open>\<open>FusionNode::gps_callback\<close>.\<close>

definition gps_callback :: "externals \<Rightarrow> real \<Rightarrow> FusionNode \<Rightarrow> NavSatFix \<Rightarrow> fault + FusionNode" where
  "gps_callback ext now node gps_msg =
     (if status gps_msg \<noteq> 2
      then Inr (node\<lparr>console := console node @ [BadGpsMessage]\<rparr>)
      else let gps_data = gps_data_of gps_msg
           in if \<not> initialized (kf_ptr node) then gps_initialize ext node gps_data
              else Inr (gps_update ext now node gps_data))"

section \<open>The node over its lifetime\<close>

text \<open>
  The states a node can be in: as constructed, after a fix received by \<open>gps_callback\<close>,
  and after an inertial sample. The inertial samples go to \<open>KF::imu_callback\<close>, a member
  of the filter object bound to \<open>kf_ptr_.get()\<close>: it is missing from the source files
  and can change the filter object in any way, but no member of the node.
\<close>

inductive reachable :: "externals \<Rightarrow> FusionNode \<Rightarrow> bool" for ext :: externals where
  reach_new: "reachable ext (FusionNode_new kf0 lla0)"
| reach_gps: "reachable ext node \<Longrightarrow> gps_callback ext now node gps_msg = Inr node' \<Longrightarrow>
     reachable ext node'"
| reach_imu: "reachable ext node \<Longrightarrow> reachable ext (node\<lparr>kf_ptr := kf'\<rparr>)"

section \<open>Sample inputs\<close>

text \<open>
  Concrete messages, filter objects and conversions at which the theorems below are
  instantiated: a fix at latitude, longitude and altitude zero with unit covariance, a
  sample of a platform at rest, a filter at the origin with unit covariance whose buffer
  holds 100 such samples, and a conversion pair that subtracts and adds the anchor, with
  100 for \<open>kImuBufSize\<close>. The anchor of the sample nodes is the point of the sample
  fixes, which a conversion maps to the origin of the local frame.
\<close>

definition unit_fix :: "8 word \<Rightarrow> real \<Rightarrow> NavSatFix" where
  "unit_fix q t =
     \<lparr>status = q, stamp = t, latitude = 0, longitude = 0, altitude = 0,
      position_covariance = Array9 1 0 0 0 1 0 0 0 1\<rparr>"

definition still_sample :: "real \<Rightarrow> ImuData" where
  "still_sample t = \<lparr>imu_timestamp = t, acc = Vec3 0 0 9.81, gyr = Vec3 0 0 0\<rparr>"

definition origin_state :: State where
  "origin_state =
     \<lparr>timestamp = 0, p_GI = Vec3 0 0 0, v_GI = Vec3 0 0 0, r_GI = mident,
      acc_bias = Vec3 0 0 0, gyr_bias = Vec3 0 0 0, cov = dident\<rparr>"

definition waiting_kf :: KF where
  "waiting_kf =
     \<lparr>initialized = False, imu_buf = replicate 100 (still_sample 1), last_imu_ptr = None,
      state_ptr = origin_state\<rparr>"

definition running_kf :: KF where
  "running_kf = waiting_kf\<lparr>initialized := True\<rparr>"

definition flat_externals :: "(ImuData list \<Rightarrow> mat3 option) \<Rightarrow> externals" where
  "flat_externals lev =
     \<lparr>lla2enu = (\<lambda>anchor p. vsub p anchor), enu2lla = (\<lambda>anchor p. vadd anchor p),
      levelling = lev, kImuBufSize = 100, singular_inverse = (\<lambda>S. mzero)\<rparr>"

text \<open>
  An initialized filter one unit below the origin. An initialized filter one unit short
  of the origin along the second axis, whose position uncertainty differs between the
  axes, and a fix whose covariance couples the first two axes.
\<close>

definition offset_kf :: KF where
  "offset_kf = running_kf\<lparr>state_ptr := origin_state\<lparr>p_GI := Vec3 0 0 (- 1)\<rparr>\<rparr>"

definition uneven_kf :: KF where
  "uneven_kf =
     running_kf\<lparr>state_ptr := origin_state
       \<lparr>p_GI := Vec3 0 (- 1) 0,
        cov := (\<lambda>i j. if i = j then (if i = 0 then 8 else if i = 1 then 1 / 8 else 1) else 0)\<rparr>\<rparr>"

definition correlated_fix :: NavSatFix where
  "correlated_fix =
     \<lparr>status = 2, stamp = 1, latitude = 0, longitude = 0, altitude = 0,
      position_covariance = Array9 1 1 0 1 2 0 0 0 1\<rparr>"

text \<open>
  A quarter turn about the third axis. An initialized filter with that orientation at
  (1, 2, 3). An initialized filter with that orientation at \<open>(-\<pi>, 0, 0)\<close>, whose error
  covariance couples the first position error with the first orientation error.
\<close>

definition quarter_turn :: mat3 where
  "quarter_turn = Mat3 (Vec3 0 (- 1) 0) (Vec3 1 0 0) (Vec3 0 0 1)"

definition placed_kf :: KF where
  "placed_kf = running_kf\<lparr>state_ptr := origin_state\<lparr>p_GI := Vec3 1 2 3, r_GI := quarter_turn\<rparr>\<rparr>"

definition coupled_kf :: KF where
  "coupled_kf =
     running_kf\<lparr>state_ptr := origin_state
       \<lparr>p_GI := Vec3 (- pi) 0 0, r_GI := quarter_turn,
        cov := (\<lambda>i j. if i = j then (if i = 6 then 2 else 1)
                      else if i = 0 \<and> j = 6 \<or> i = 6 \<and> j = 0 then 1 else 0)\<rparr>\<rparr>"

text \<open>
  An initialized filter whose error covariance has four entries off the diagonal, all
  different and not mirrored, so that rows, columns and blocks can be told apart.
\<close>

definition lopsided_kf :: KF where
  "lopsided_kf =
     running_kf\<lparr>state_ptr := origin_state
       \<lparr>cov := (\<lambda>i j. if i = j then 1
                      else if i = 1 \<and> j = 8 then 1 / 2
                      else if i = 8 \<and> j = 1 then 1 / 4
                      else if i = 7 \<and> j = 8 then 1 / 3
                      else if i = 8 \<and> j = 7 then 1 / 5
                      else 0)\<rparr>\<rparr>"

text \<open>
  The doubles 0.49900000000000005 and 0.9990000000000001, which \<open>toSec()\<close> returns for
  stamps of 0 s with 499000000 ns and with 999000000 ns, and a filter waiting for its
  first fix whose buffered samples carry the first of them. The exact difference of the
  two is \<open>1/2 + 2\<^sup>-\<^sup>5\<^sup>4\<close>.
\<close>

definition stamp_0499 :: real where
  "stamp_0499 = 8989184856231511 / 2 ^ 54"

definition stamp_0999 :: real where
  "stamp_0999 = 8998192055486252 / 2 ^ 53"

definition early_kf :: KF where
  "early_kf = waiting_kf\<lparr>imu_buf := replicate 100 (still_sample stamp_0499)\<rparr>"


section \<open>Linear algebra lemmas\<close>

lemma mat_mul_coeffs:
  "mat_mul (Mat3 (Vec3 a b c) (Vec3 d e f) (Vec3 g h i))
           (Mat3 (Vec3 a' b' c') (Vec3 d' e' f') (Vec3 g' h' i')) =
   Mat3 (Vec3 (a * a' + b * d' + c * g') (a * b' + b * e' + c * h') (a * c' + b * f' + c * i'))
        (Vec3 (d * a' + e * d' + f * g') (d * b' + e * e' + f * h') (d * c' + e * f' + f * i'))
        (Vec3 (g * a' + h * d' + i * g') (g * b' + h * e' + i * h') (g * c' + h * f' + i * i'))"
  by (simp add: mat_mul_def)

lemma mat3_coeffs:
  obtains a1 a2 a3 a4 a5 a6 a7 a8 a9 where "m = Mat3 (Vec3 a1 a2 a3) (Vec3 a4 a5 a6) (Vec3 a7 a8 a9)"
  by (metis mat3.exhaust vec3.exhaust)

lemma mcoeff_to_mat3: "i < 3 \<Longrightarrow> j < 3 \<Longrightarrow> mcoeff (to_mat3 f) i j = f i j"
proof -
  assume "i < 3" "j < 3"
  then have "(i = 0 \<or> i = 1 \<or> i = 2) \<and> (j = 0 \<or> j = 1 \<or> j = 2)" by arith
  then show ?thesis by (auto simp: mcoeff_def to_mat3_def to_vec3_def)
qed

lemma mcoeff_mzero: "mcoeff mzero i j = 0"
  by (simp add: mcoeff_def mzero_def vzero_def)

lemma mcoeff_mident: "i < 3 \<Longrightarrow> j < 3 \<Longrightarrow> mcoeff mident i j = (if i = j then 1 else 0)"
proof -
  assume "i < 3" "j < 3"
  then have "(i = 0 \<or> i = 1 \<or> i = 2) \<and> (j = 0 \<or> j = 1 \<or> j = 2)" by arith
  then show ?thesis by (auto simp: mcoeff_def mident_def)
qed

lemma mneg_mat_mul: "mat_mul (mneg a) b = mneg (mat_mul a b)"
proof -
  obtain a1 a2 a3 a4 a5 a6 a7 a8 a9 where a: "a = Mat3 (Vec3 a1 a2 a3) (Vec3 a4 a5 a6) (Vec3 a7 a8 a9)"
    by (metis mat3.exhaust vec3.exhaust)
  obtain b1 b2 b3 b4 b5 b6 b7 b8 b9 where b: "b = Mat3 (Vec3 b1 b2 b3) (Vec3 b4 b5 b6) (Vec3 b7 b8 b9)"
    by (metis mat3.exhaust vec3.exhaust)
  show ?thesis by (simp add: a b mat_mul_coeffs)
qed

lemma mat_mul_assoc: "mat_mul (mat_mul a b) c = mat_mul a (mat_mul b c)"
proof -
  obtain a1 a2 a3 a4 a5 a6 a7 a8 a9 where a: "a = Mat3 (Vec3 a1 a2 a3) (Vec3 a4 a5 a6) (Vec3 a7 a8 a9)"
    by (rule mat3_coeffs)
  obtain b1 b2 b3 b4 b5 b6 b7 b8 b9 where b: "b = Mat3 (Vec3 b1 b2 b3) (Vec3 b4 b5 b6) (Vec3 b7 b8 b9)"
    by (rule mat3_coeffs)
  obtain c1 c2 c3 c4 c5 c6 c7 c8 c9 where c: "c = Mat3 (Vec3 c1 c2 c3) (Vec3 c4 c5 c6) (Vec3 c7 c8 c9)"
    by (rule mat3_coeffs)
  show ?thesis by (simp add: a b c mat_mul_coeffs algebra_simps)
qed

lemma mtranspose_mat_mul: "mtranspose (mat_mul a b) = mat_mul (mtranspose b) (mtranspose a)"
proof -
  obtain a1 a2 a3 a4 a5 a6 a7 a8 a9 where a: "a = Mat3 (Vec3 a1 a2 a3) (Vec3 a4 a5 a6) (Vec3 a7 a8 a9)"
    by (rule mat3_coeffs)
  obtain b1 b2 b3 b4 b5 b6 b7 b8 b9 where b: "b = Mat3 (Vec3 b1 b2 b3) (Vec3 b4 b5 b6) (Vec3 b7 b8 b9)"
    by (rule mat3_coeffs)
  show ?thesis by (simp add: a b mat_mul_coeffs algebra_simps)
qed

lemma det3_mat_mul: "det3 (mat_mul a b) = det3 a * det3 b"
proof -
  obtain a1 a2 a3 a4 a5 a6 a7 a8 a9 where a: "a = Mat3 (Vec3 a1 a2 a3) (Vec3 a4 a5 a6) (Vec3 a7 a8 a9)"
    by (rule mat3_coeffs)
  obtain b1 b2 b3 b4 b5 b6 b7 b8 b9 where b: "b = Mat3 (Vec3 b1 b2 b3) (Vec3 b4 b5 b6) (Vec3 b7 b8 b9)"
    by (rule mat3_coeffs)
  show ?thesis by (simp add: a b mat_mul_coeffs algebra_simps)
qed

lemma mat_mul_mident_left: "mat_mul mident a = a"
proof -
  obtain a1 a2 a3 a4 a5 a6 a7 a8 a9 where a: "a = Mat3 (Vec3 a1 a2 a3) (Vec3 a4 a5 a6) (Vec3 a7 a8 a9)"
    by (rule mat3_coeffs)
  show ?thesis by (simp add: a mident_def mat_mul_coeffs)
qed

lemma mat_mul_skew_zero: "mat_mul m (Mat3 (Vec3 0 0 0) (Vec3 0 0 0) (Vec3 0 0 0)) = mzero"
proof -
  obtain a1 a2 a3 a4 a5 a6 a7 a8 a9 where a: "m = Mat3 (Vec3 a1 a2 a3) (Vec3 a4 a5 a6) (Vec3 a7 a8 a9)"
    by (rule mat3_coeffs)
  show ?thesis by (simp add: a mat_mul_coeffs mzero_def vzero_def)
qed

lemma mat_mul_adjugate3: "mat_mul s (adjugate3 s) = mscale (det3 s) mident"
proof -
  obtain a1 a2 a3 a4 a5 a6 a7 a8 a9 where a: "s = Mat3 (Vec3 a1 a2 a3) (Vec3 a4 a5 a6) (Vec3 a7 a8 a9)"
    by (rule mat3_coeffs)
  show ?thesis by (simp add: a mat_mul_coeffs mident_def algebra_simps)
qed

lemma mat_mul_mscale_right: "mat_mul a (mscale k b) = mscale k (mat_mul a b)"
proof -
  obtain a1 a2 a3 a4 a5 a6 a7 a8 a9 where a: "a = Mat3 (Vec3 a1 a2 a3) (Vec3 a4 a5 a6) (Vec3 a7 a8 a9)"
    by (rule mat3_coeffs)
  obtain b1 b2 b3 b4 b5 b6 b7 b8 b9 where b: "b = Mat3 (Vec3 b1 b2 b3) (Vec3 b4 b5 b6) (Vec3 b7 b8 b9)"
    by (rule mat3_coeffs)
  show ?thesis by (simp add: a b mat_mul_coeffs algebra_simps)
qed

lemma mscale_mscale: "mscale k (mscale l a) = mscale (k * l) a"
proof -
  obtain a1 a2 a3 a4 a5 a6 a7 a8 a9 where a: "a = Mat3 (Vec3 a1 a2 a3) (Vec3 a4 a5 a6) (Vec3 a7 a8 a9)"
    by (rule mat3_coeffs)
  show ?thesis by (simp add: a algebra_simps)
qed

lemma mscale_one: "mscale 1 a = a"
proof -
  obtain a1 a2 a3 a4 a5 a6 a7 a8 a9 where a: "a = Mat3 (Vec3 a1 a2 a3) (Vec3 a4 a5 a6) (Vec3 a7 a8 a9)"
    by (rule mat3_coeffs)
  show ?thesis by (simp add: a)
qed

lemma inverse3_right:
  assumes "inverse3 s = Some t"
  shows "mat_mul s t = mident"
proof -
  have d0: "det3 s \<noteq> 0" using assms by (auto simp: inverse3_def split: if_splits)
  have t: "t = mscale (1 / det3 s) (adjugate3 s)" using assms by (auto simp: inverse3_def split: if_splits)
  show ?thesis using d0
    by (simp add: t mat_mul_mscale_right mat_mul_adjugate3 mscale_mscale mscale_one)
qed

lemma sum_upto_0: "sum_upto 0 f = 0"
  by (simp add: sum_upto_def)

lemma sum_upto_Suc: "sum_upto (Suc n) f = sum_upto n f + f n"
  by (simp add: sum_upto_def)

lemma sum_upto_3: "sum_upto 3 f = f 0 + f 1 + f 2"
  by (simp add: numeral_3_eq_3 sum_upto_Suc sum_upto_0 numeral_2_eq_2)

lemma sum_upto_delta_right:
  "sum_upto n (\<lambda>k. f k * (if j = k \<and> k < m then 1 else 0)) = (if j < m \<and> j < n then f j else 0)"
  by (induction n) (auto simp: sum_upto_0 sum_upto_Suc less_Suc_eq)

lemma sum_upto_delta_left:
  "sum_upto n (\<lambda>k. (if i = k \<and> k < m then 1 else 0) * f k) = (if i < m \<and> i < n then f i else 0)"
  by (induction n) (auto simp: sum_upto_0 sum_upto_Suc less_Suc_eq)

lemma vec3_coeffs: obtains x y z where "v = Vec3 x y z"
  by (cases v)

lemma mat_mul_madd_left: "mat_mul (madd a b) c = madd (mat_mul a c) (mat_mul b c)"
proof -
  obtain a1 a2 a3 a4 a5 a6 a7 a8 a9 where a: "a = Mat3 (Vec3 a1 a2 a3) (Vec3 a4 a5 a6) (Vec3 a7 a8 a9)"
    by (rule mat3_coeffs)
  obtain b1 b2 b3 b4 b5 b6 b7 b8 b9 where b: "b = Mat3 (Vec3 b1 b2 b3) (Vec3 b4 b5 b6) (Vec3 b7 b8 b9)"
    by (rule mat3_coeffs)
  obtain c1 c2 c3 c4 c5 c6 c7 c8 c9 where c: "c = Mat3 (Vec3 c1 c2 c3) (Vec3 c4 c5 c6) (Vec3 c7 c8 c9)"
    by (rule mat3_coeffs)
  show ?thesis by (simp add: a b c mat_mul_coeffs algebra_simps)
qed

lemma mat_vec_madd: "mat_vec (madd a b) v = vadd (mat_vec a v) (mat_vec b v)"
proof -
  obtain a1 a2 a3 a4 a5 a6 a7 a8 a9 where a: "a = Mat3 (Vec3 a1 a2 a3) (Vec3 a4 a5 a6) (Vec3 a7 a8 a9)"
    by (rule mat3_coeffs)
  obtain b1 b2 b3 b4 b5 b6 b7 b8 b9 where b: "b = Mat3 (Vec3 b1 b2 b3) (Vec3 b4 b5 b6) (Vec3 b7 b8 b9)"
    by (rule mat3_coeffs)
  obtain x y z where v: "v = Vec3 x y z" by (rule vec3_coeffs)
  show ?thesis by (simp add: a b v algebra_simps)
qed

lemma mat_vec_mat_mul: "mat_vec (mat_mul a b) v = mat_vec a (mat_vec b v)"
proof -
  obtain a1 a2 a3 a4 a5 a6 a7 a8 a9 where a: "a = Mat3 (Vec3 a1 a2 a3) (Vec3 a4 a5 a6) (Vec3 a7 a8 a9)"
    by (rule mat3_coeffs)
  obtain b1 b2 b3 b4 b5 b6 b7 b8 b9 where b: "b = Mat3 (Vec3 b1 b2 b3) (Vec3 b4 b5 b6) (Vec3 b7 b8 b9)"
    by (rule mat3_coeffs)
  obtain x y z where v: "v = Vec3 x y z" by (rule vec3_coeffs)
  show ?thesis by (simp add: a b v mat_mul_coeffs algebra_simps)
qed

lemma mat_vec_mident: "mat_vec mident v = v"
proof -
  obtain x y z where v: "v = Vec3 x y z" by (rule vec3_coeffs)
  show ?thesis by (simp add: v mident_def)
qed

lemma mat_vec_mscale_mident: "mat_vec (mscale k mident) v = vscale k v"
proof -
  obtain x y z where v: "v = Vec3 x y z" by (rule vec3_coeffs)
  show ?thesis by (simp add: v mident_def)
qed

lemma mat_vec_zero: "mat_vec a (Vec3 0 0 0) = Vec3 0 0 0"
proof -
  obtain a1 a2 a3 a4 a5 a6 a7 a8 a9 where a: "a = Mat3 (Vec3 a1 a2 a3) (Vec3 a4 a5 a6) (Vec3 a7 a8 a9)"
    by (rule mat3_coeffs)
  show ?thesis by (simp add: a)
qed

lemma vsub_vadd_split: "vadd a b = c \<Longrightarrow> vsub (vsub z p) a = vsub z (vadd p a) \<and> vsub c a = b"
proof -
  assume h: "vadd a b = c"
  obtain a1 a2 a3 where a: "a = Vec3 a1 a2 a3" by (rule vec3_coeffs)
  obtain b1 b2 b3 where b: "b = Vec3 b1 b2 b3" by (rule vec3_coeffs)
  obtain z1 z2 z3 where z: "z = Vec3 z1 z2 z3" by (rule vec3_coeffs)
  obtain p1 p2 p3 where p: "p = Vec3 p1 p2 p3" by (rule vec3_coeffs)
  show ?thesis using h [symmetric] by (simp add: a b z p)
qed

lemma vnorm_less_iff: "vnorm a < vnorm b \<longleftrightarrow> vdot a a < vdot b b"
  by (simp add: vnorm_def)

lemma vdot_self_nonneg: "0 \<le> vdot v v"
proof -
  obtain x y z where v: "v = Vec3 x y z" by (rule vec3_coeffs)
  show ?thesis by (simp add: v)
qed

lemma vdot_self_pos: "v \<noteq> Vec3 0 0 0 \<Longrightarrow> 0 < vdot v v"
proof -
  assume v: "v \<noteq> Vec3 0 0 0"
  obtain x y z where c: "v = Vec3 x y z" by (rule vec3_coeffs)
  have n: "0 \<le> x * x" "0 \<le> y * y" "0 \<le> z * z" by simp_all
  have "x \<noteq> 0 \<or> y \<noteq> 0 \<or> z \<noteq> 0" using v c by simp
  then have "0 < x * x \<or> 0 < y * y \<or> 0 < z * z"
    by (auto simp: zero_less_mult_iff neq_iff)
  then have "0 < x * x + y * y + z * z" using n by linarith
  then show ?thesis by (simp add: c)
qed

lemma vdot_shifted:
  "vdot (vadd u (vscale k w)) (vadd u (vscale k w)) =
   vdot u u + 2 * k * vdot w u + vdot (vscale k w) (vscale k w)"
proof -
  obtain x y z where u: "u = Vec3 x y z" by (rule vec3_coeffs)
  obtain a b c where w: "w = Vec3 a b c" by (rule vec3_coeffs)
  show ?thesis by (simp add: u w algebra_simps)
qed

lemma isotropic_norm_drop:
  assumes S: "inverse3 (madd Pp (mscale k mident)) = Some S_inv" and k: "0 < k"
    and pd: "\<forall>v. v \<noteq> Vec3 0 0 0 \<longrightarrow> 0 < vdot v (mat_vec Pp v)"
    and r: "r \<noteq> Vec3 0 0 0"
  shows "vnorm (mat_vec (mat_mul (mscale k mident) S_inv) r) < vnorm r"
proof -
  define w where "w = mat_vec S_inv r"
  define u where "u = mat_vec Pp w"
  have after: "mat_vec (mat_mul (mscale k mident) S_inv) r = vscale k w"
    by (simp add: mat_vec_mat_mul mat_vec_mscale_mident w_def)
  have "mat_mul (madd Pp (mscale k mident)) S_inv = mident"
    using S by (rule inverse3_right)
  then have "mat_vec (madd Pp (mscale k mident)) w = r"
    by (metis mat_vec_mat_mul mat_vec_mident w_def)
  then have before: "r = vadd u (vscale k w)"
    by (simp add: mat_vec_madd mat_vec_mscale_mident u_def)
  have "w \<noteq> Vec3 0 0 0"
  proof
    assume "w = Vec3 0 0 0"
    then have "r = Vec3 0 0 0" using before by (simp add: u_def mat_vec_zero)
    then show False using r by simp
  qed
  then have "0 < vdot w u" using pd by (simp add: u_def)
  then have "0 < 2 * k * vdot w u" using k by simp
  moreover have "0 \<le> vdot u u" by (rule vdot_self_nonneg)
  ultimately have "vdot (vscale k w) (vscale k w) < vdot r r"
    unfolding before vdot_shifted by linarith
  then show ?thesis by (simp add: after vnorm_less_iff)
qed


section \<open>Rotations\<close>

lemma is_rotation_mident: "is_rotation mident"
  by (simp add: is_rotation_def mident_def mat_mul_coeffs)

lemma is_rotation_mat_mul:
  assumes a: "is_rotation a" and b: "is_rotation b"
  shows "is_rotation (mat_mul a b)"
proof -
  have 1: "mat_mul (mtranspose (mat_mul a b)) (mat_mul a b) = mident"
  proof -
    have "mat_mul (mtranspose (mat_mul a b)) (mat_mul a b) =
          mat_mul (mtranspose b) (mat_mul (mat_mul (mtranspose a) a) b)"
      by (simp add: mtranspose_mat_mul mat_mul_assoc)
    also have "\<dots> = mident"
      using a b by (simp add: is_rotation_def mat_mul_mident_left)
    finally show ?thesis .
  qed
  have 2: "mat_mul (mat_mul a b) (mtranspose (mat_mul a b)) = mident"
  proof -
    have "mat_mul (mat_mul a b) (mtranspose (mat_mul a b)) =
          mat_mul a (mat_mul (mat_mul b (mtranspose b)) (mtranspose a))"
      by (simp add: mtranspose_mat_mul mat_mul_assoc)
    also have "\<dots> = mident"
      using a b by (simp add: is_rotation_def mat_mul_mident_left)
    finally show ?thesis .
  qed
  have 3: "det3 (mat_mul a b) = 1"
    using a b by (simp add: det3_mat_mul is_rotation_def)
  show ?thesis using 1 2 3 by (simp add: is_rotation_def)
qed

lemma rodrigues_orth:
  fixes a b c s t :: real
  assumes u: "a * a + b * b + c * c = 1" and st: "s * s + t * t = 1"
  shows "is_rotation (madd (madd mident (mscale s (skew_matrix (Vec3 a b c))))
           (mscale (1 - t) (mat_mul (skew_matrix (Vec3 a b c)) (skew_matrix (Vec3 a b c)))))"
  unfolding is_rotation_def using u st
  apply (simp add: mat_mul_coeffs mident_def)
  apply (intro conjI)
  apply algebra+
  done

lemma is_rotation_rotation_of: "is_rotation (rotation_of phi)"
proof (cases "vnorm phi = 0")
  case True
  then show ?thesis by (simp add: rotation_of_def is_rotation_mident)
next
  case False
  obtain x y z where phi: "phi = Vec3 x y z" by (cases phi)
  define n where "n = vnorm phi"
  have n0: "n \<noteq> 0" using False by (simp add: n_def)
  have nn: "n * n = x * x + y * y + z * z"
  proof -
    have "0 \<le> x * x + y * y + z * z" by (simp add: add_nonneg_nonneg)
    then show ?thesis by (simp add: n_def vnorm_def phi)
  qed
  have u: "(x / n) * (x / n) + (y / n) * (y / n) + (z / n) * (z / n) = 1"
  proof -
    have "(x / n) * (x / n) + (y / n) * (y / n) + (z / n) * (z / n) =
          (x * x + y * y + z * z) / (n * n)"
      by (simp add: add_divide_distrib)
    also have "\<dots> = (n * n) / (n * n)" by (simp only: nn)
    also have "\<dots> = 1" using n0 by simp
    finally show ?thesis .
  qed
  have st: "sin n * sin n + cos n * cos n = 1"
    using sin_cos_squared_add [of n] by (simp add: power2_eq_square)
  have "rotation_of phi =
        madd (madd mident (mscale (sin n) (skew_matrix (Vec3 (x / n) (y / n) (z / n)))))
          (mscale (1 - cos n) (mat_mul (skew_matrix (Vec3 (x / n) (y / n) (z / n)))
             (skew_matrix (Vec3 (x / n) (y / n) (z / n)))))"
  proof -
    have vs: "vscale (1 / n) phi = Vec3 (x / n) (y / n) (z / n)" by (simp add: phi)
    have "rotation_of phi =
        (if n = 0 then mident
         else madd (madd mident (mscale (sin n) (skew_matrix (vscale (1 / n) phi))))
                (mscale (1 - cos n) (mat_mul (skew_matrix (vscale (1 / n) phi))
                   (skew_matrix (vscale (1 / n) phi)))))"
      by (simp only: rotation_of_def Let_def n_def)
    then show ?thesis using n0 by (simp only: vs if_False)
  qed
  then show ?thesis using rodrigues_orth [OF u st] by simp
qed

lemma rotation_of_quarter_x:
  "rotation_of (Vec3 (pi / 2) 0 0) = Mat3 (Vec3 1 0 0) (Vec3 0 0 (- 1)) (Vec3 0 1 0)"
proof -
  have "vdot (Vec3 (pi / 2) 0 0) (Vec3 (pi / 2) 0 0) = (pi / 2)\<^sup>2"
    by (simp add: power2_eq_square)
  then have "vnorm (Vec3 (pi / 2) 0 0) = \<bar>pi / 2\<bar>"
    by (simp only: vnorm_def real_sqrt_abs)
  then have n: "vnorm (Vec3 (pi / 2) 0 0) = pi / 2" by simp
  have p: "pi / 2 \<noteq> 0" by simp
  show ?thesis
    unfolding rotation_of_def n Let_def using p
    by (simp add: mat_mul_coeffs mident_def)
qed

lemma is_rotation_quarter_turn: "is_rotation quarter_turn"
  by (simp add: is_rotation_def quarter_turn_def mat_mul_coeffs mident_def)


section \<open>The update with a zero lever arm\<close>

lemma jacobian_zero_lever:
  "I_p_Gps node = Vec3 0 0 0 \<Longrightarrow> gps_jacobian node i j = (if i = j \<and> j < 3 then 1 else 0)"
  by (auto simp: gps_jacobian_def Let_def set_block33_def setZero_def mat_mul_skew_zero
      mcoeff_mzero mcoeff_mident)

lemma predicted_zero_lever:
  "I_p_Gps node = Vec3 0 0 0 \<Longrightarrow> predicted_position node = p_GI (state_ptr (kf_ptr node))"
proof -
  assume l: "I_p_Gps node = Vec3 0 0 0"
  obtain a1 a2 a3 a4 a5 a6 a7 a8 a9 where a: "r_GI (state_ptr (kf_ptr node)) = Mat3 (Vec3 a1 a2 a3) (Vec3 a4 a5 a6) (Vec3 a7 a8 a9)"
    by (rule mat3_coeffs)
  obtain x y z where p: "p_GI (state_ptr (kf_ptr node)) = Vec3 x y z" by (cases "p_GI (state_ptr (kf_ptr node))")
  show ?thesis by (simp add: predicted_position_def Let_def l a p)
qed

lemma PHt_zero_lever:
  assumes "\<And>i j. H i j = (if i = j \<and> j < 3 then 1 else (0::real))"
  shows "dmat_mul kStateDim P (dtranspose H) i j = (if j < 3 then P i j else 0)"
  by (simp add: dmat_mul_def dtranspose_def assms sum_upto_delta_right kStateDim_def)

lemma PHt_zero_lever_fun:
  assumes "\<And>i j. H i j = (if i = j \<and> j < 3 then 1 else (0::real))"
  shows "dmat_mul kStateDim P (dtranspose H) = (\<lambda>i j. if j < 3 then P i j else 0)"
  by (intro ext) (rule PHt_zero_lever [OF assms])

lemma innovation_zero_lever:
  assumes "\<And>i j. H i j = (if i = j \<and> j < 3 then 1 else (0::real))"
  shows "to_mat3 (dmat_mul kStateDim H (\<lambda>i j. if j < 3 then P i j else 0)) = block33 P 0 0"
  by (simp add: dmat_mul_def assms sum_upto_delta_left kStateDim_def to_mat3_def to_vec3_def block33_def)

lemma gain_block:
  assumes "\<And>i j. PHt i j = (if j < 3 then P i j else (0::real))"
  shows "segment3 (dmat_vec3 (dmat_mul 3 PHt (of_mat3 B)) r) n = mat_vec (mat_mul (block33 P n 0) B) r"
proof -
  obtain b1 b2 b3 b4 b5 b6 b7 b8 b9 where b: "B = Mat3 (Vec3 b1 b2 b3) (Vec3 b4 b5 b6) (Vec3 b7 b8 b9)"
    by (rule mat3_coeffs)
  obtain x y z where r: "r = Vec3 x y z" by (cases r)
  show ?thesis
    by (simp add: segment3_def dmat_vec3_def dmat_mul_def sum_upto_3 assms of_mat3_def mcoeff_def
        b r to_vec3_def block33_def to_mat3_def mat_mul_coeffs algebra_simps)
qed

lemma update_K_zero_lever:
  assumes "I_p_Gps node = Vec3 0 0 0"
  shows "update_K ext (kf_ptr node) (gps_jacobian node) R =
     dmat_mul 3 (\<lambda>i j. if j < 3 then cov (state_ptr (kf_ptr node)) i j else 0)
       (of_mat3 (case inverse3 (madd (block33 (cov (state_ptr (kf_ptr node))) 0 0) R) of
                   None \<Rightarrow> singular_inverse ext (madd (block33 (cov (state_ptr (kf_ptr node))) 0 0) R)
                 | Some m \<Rightarrow> m))"
  unfolding update_K_def Let_def
  by (simp only: PHt_zero_lever_fun [OF jacobian_zero_lever [OF assms]]
      innovation_zero_lever [OF jacobian_zero_lever [OF assms]])

lemma sum_upto_diff: "sum_upto n (\<lambda>k. f k - g k) = sum_upto n f - sum_upto n g"
  by (induction n) (simp_all add: sum_upto_0 sum_upto_Suc)

lemma sum_upto_pick: "sum_upto n (\<lambda>k. (if i = k then 1 else 0) * f k) = (if i < n then f i else 0)"
  by (induction n) (auto simp: sum_upto_0 sum_upto_Suc less_Suc_eq)

lemma sum_upto_cong: "(\<And>k. k < n \<Longrightarrow> f k = g k) \<Longrightarrow> sum_upto n f = sum_upto n g"
  by (induction n) (simp_all add: sum_upto_0 sum_upto_Suc)

lemma sum_upto_first: "m \<le> n \<Longrightarrow> sum_upto n (\<lambda>k. if k < m then g k else 0) = sum_upto m g"
proof (induction n)
  case 0
  then show ?case by (simp add: sum_upto_0)
next
  case (Suc n)
  show ?case
  proof (cases "m = Suc n")
    case True
    have "sum_upto n (\<lambda>k. if k < Suc n then g k else 0) = sum_upto n g"
      by (rule sum_upto_cong) simp
    then show ?thesis by (simp add: True sum_upto_Suc)
  next
    case False
    then have "m \<le> n" using Suc.prems by simp
    then show ?thesis using Suc.IH by (simp add: sum_upto_Suc)
  qed
qed

lemma update_P_zero_lever:
  assumes l: "I_p_Gps node = Vec3 0 0 0" and i: "i < kStateDim"
  shows "cov (state_ptr (update_P (kf_ptr node) (gps_jacobian node) R K)) i j =
           cov (state_ptr (kf_ptr node)) i j -
           sum_upto 3 (\<lambda>k. K i k * cov (state_ptr (kf_ptr node)) k j)"
proof -
  define P where "P = cov (state_ptr (kf_ptr node))"
  have KH: "sum_upto 3 (\<lambda>k. K i k * gps_jacobian node k a) = (if a < 3 then K i a else 0)" for a
  proof (cases "a < 3")
    case True
    then have "a = 0 \<or> a = 1 \<or> a = 2" by arith
    then show ?thesis by (auto simp: jacobian_zero_lever [OF l] sum_upto_3)
  next
    case False
    then show ?thesis by (simp add: jacobian_zero_lever [OF l] sum_upto_3)
  qed
  have "cov (state_ptr (update_P (kf_ptr node) (gps_jacobian node) R K)) i j =
        sum_upto kStateDim (\<lambda>a. ((if i = a then 1 else 0) - (if a < 3 then K i a else 0)) * P a j)"
    by (simp add: update_P_def dmat_mul_def dsub_def dident_def KH P_def)
  also have "\<dots> = sum_upto kStateDim (\<lambda>a. (if i = a then 1 else 0) * P a j -
                       (if a < 3 then K i a * P a j else 0))"
    by (rule arg_cong [where f = "sum_upto kStateDim"]) (auto simp: algebra_simps)
  also have "\<dots> = P i j - sum_upto 3 (\<lambda>k. K i k * P k j)"
    using i by (simp add: sum_upto_diff sum_upto_pick sum_upto_first kStateDim_def)
  finally show ?thesis by (simp add: P_def)
qed

section \<open>Rounding at the synchronization threshold\<close>

lemma round_half_even_ge: "of_int k \<le> y \<Longrightarrow> k \<le> round_half_even y"
proof -
  assume "of_int k \<le> y"
  then have "k \<le> \<lfloor>y\<rfloor>" by (simp add: le_floor_iff)
  then show ?thesis by (auto simp: round_half_even_def Let_def)
qed

lemma round_half_even_le: "y \<le> of_int k \<Longrightarrow> round_half_even y \<le> k"
proof -
  assume h: "y \<le> of_int k"
  then have f: "\<lfloor>y\<rfloor> \<le> k" by (simp add: floor_le_iff)
  show ?thesis
  proof (cases "\<lfloor>y\<rfloor> = k")
    case True
    then have "y = of_int k" using h of_int_floor_le [of y] by linarith
    then show ?thesis by (simp add: round_half_even_def Let_def)
  next
    case False
    then have "\<lfloor>y\<rfloor> + 1 \<le> k" using f by linarith
    then show ?thesis by (auto simp: round_half_even_def Let_def)
  qed
qed

lemma round_half_even_nonneg: "0 \<le> y \<Longrightarrow> 0 \<le> round_half_even y"
  using round_half_even_ge [of 0 y] by simp

lemma abs_round_to_double:
  "x \<noteq> 0 \<Longrightarrow> \<bar>round_to_double x\<bar> =
     2 powi (double_exponent \<bar>x\<bar> - 52) *
       of_int (round_half_even (\<bar>x\<bar> / 2 powi (double_exponent \<bar>x\<bar> - 52)))"
proof -
  assume x: "x \<noteq> 0"
  have u: "(0::real) < 2 powi (double_exponent \<bar>x\<bar> - 52)" by simp
  have "0 \<le> \<bar>x\<bar> / 2 powi (double_exponent \<bar>x\<bar> - 52)" using u by simp
  then have n: "0 \<le> round_half_even (\<bar>x\<bar> / 2 powi (double_exponent \<bar>x\<bar> - 52))"
    by (rule round_half_even_nonneg)
  show ?thesis using x u n
    by (simp add: round_to_double_def Let_def abs_mult abs_sgn_eq)
qed

lemma round_to_double_zero: "round_to_double 0 = 0"
  by (simp add: round_to_double_def)

lemma round_to_double_within_half:
  assumes "\<bar>x\<bar> \<le> 1 / 2"
  shows "\<bar>round_to_double x\<bar> \<le> 1 / 2"
proof (cases "x = 0")
  case True
  then show ?thesis by (simp add: round_to_double_zero)
next
  case False
  define m where "m = \<bar>x\<bar>"
  define e where "e = double_exponent m"
  define u :: real where "u = 2 powi (e - 52)"
  have m: "0 < m" "m \<le> 1 / 2" using False assms by (simp_all add: m_def)
  have "log 2 m \<le> log 2 (1 / 2)" using m by simp
  also have "log 2 (1 / 2) = - 1" by (simp add: log_divide)
  finally have "\<lfloor>log 2 m\<rfloor> \<le> - 1" by (simp add: floor_le_iff)
  then have e: "e \<le> - 1" by (simp add: e_def double_exponent_def)
  have u: "0 < u" by (simp add: u_def)
  have "m / u \<le> (1 / 2) / u" using m(2) u by (intro divide_right_mono) simp_all
  also have "(1 / 2) / u = 2 powi (- 1) / 2 powi (e - 52)"
    by (simp add: u_def power_int_minus)
  also have "\<dots> = 2 powi (- 1 - (e - 52))" by (simp add: power_int_diff)
  also have "\<dots> = 2 powi (51 - e)" by (simp add: algebra_simps)
  also have "\<dots> = of_int (2 ^ nat (51 - e))" using e by (simp add: power_int_def)
  finally have "round_half_even (m / u) \<le> 2 ^ nat (51 - e)" by (rule round_half_even_le)
  then have "real_of_int (round_half_even (m / u)) \<le> real_of_int (2 ^ nat (51 - e))"
    by (simp only: of_int_le_iff)
  then have "u * real_of_int (round_half_even (m / u)) \<le> u * real_of_int (2 ^ nat (51 - e))"
    using u by (simp add: mult_left_mono)
  also have "real_of_int (2 ^ nat (51 - e)) = 2 powi (51 - e)" using e by (simp add: power_int_def)
  also have "u * 2 powi (51 - e) = 2 powi ((e - 52) + (51 - e))"
    unfolding u_def by (subst power_int_add) simp_all
  also have "\<dots> = 1 / 2" by (simp add: power_int_minus)
  finally show ?thesis
    using abs_round_to_double [OF False]
    by (simp add: m_def [symmetric] e_def [symmetric] u_def [symmetric])
qed

lemma round_to_double_beyond_half:
  assumes "1 / 2 + 1 / 2 ^ 53 \<le> \<bar>x\<bar>"
  shows "1 / 2 < \<bar>round_to_double x\<bar>"
proof -
  define m where "m = \<bar>x\<bar>"
  define f where "f = \<lfloor>log 2 m\<rfloor>"
  define u :: real where "u = 2 powi (f - 52)"
  have m: "1 / 2 + 1 / 2 ^ 53 \<le> m" using assms by (simp add: m_def)
  then have m0: "0 < m" "1 / 2 \<le> m"
    by (simp_all add: add_pos_pos order_trans [of "1 / 2" "1 / 2 + 1 / 2 ^ 53"])
  have x0: "x \<noteq> 0" using m0 by (auto simp: m_def)
  have "log 2 (1 / 2) \<le> log 2 m" using m0 by simp
  moreover have "log 2 (1 / 2) = - 1" by (simp add: log_divide)
  ultimately have f: "- 1 \<le> f" by (simp add: f_def le_floor_iff)
  then have e: "double_exponent m = f" by (simp add: double_exponent_def f_def)
  have "2 powr real_of_int f \<le> m"
    using floor_log_eq_powr_iff [of m 2 f] m0 by (simp add: f_def)
  then have low: "2 powi f \<le> m" by (simp add: powr_real_of_int')
  have u: "0 < u" by (simp add: u_def)
  have goal: "1 / 2 < u * real_of_int (round_half_even (m / u))"
  proof (cases "f = - 1")
    case True
    have u53: "u = 1 / 2 ^ 53" by (simp add: u_def True power_int_minus_divide)
    have "real_of_int (2 ^ 52 + 1) \<le> m / u" using m by (simp add: u53)
    then have "2 ^ 52 + 1 \<le> round_half_even (m / u)" by (rule round_half_even_ge)
    then have "real_of_int (2 ^ 52 + 1) \<le> real_of_int (round_half_even (m / u))"
      by (simp only: of_int_le_iff)
    then have "u * real_of_int (2 ^ 52 + 1) \<le> u * real_of_int (round_half_even (m / u))"
      using u by (simp add: mult_left_mono)
    moreover have "1 / 2 < u * real_of_int (2 ^ 52 + 1)" by (simp add: u53)
    ultimately show ?thesis by linarith
  next
    case False
    then have f0: "0 \<le> f" using f by linarith
    have "2 powi f / u = 2 powi (f - (f - 52))" unfolding u_def by (simp add: power_int_diff)
    also have "\<dots> = 2 ^ 52" by simp
    finally have p: "2 powi f / u = 2 ^ 52" .
    have "2 powi f / u \<le> m / u" using low u by (intro divide_right_mono) simp_all
    then have "real_of_int (2 ^ 52) \<le> m / u" unfolding p by simp
    then have "2 ^ 52 \<le> round_half_even (m / u)" by (rule round_half_even_ge)
    then have "real_of_int (2 ^ 52) \<le> real_of_int (round_half_even (m / u))"
      by (simp only: of_int_le_iff)
    then have "u * real_of_int (2 ^ 52) \<le> u * real_of_int (round_half_even (m / u))"
      using u by (simp add: mult_left_mono)
    moreover have "u * real_of_int (2 ^ 52) = 2 powi ((f - 52) + 52)"
      unfolding u_def by (subst power_int_add) simp_all
    moreover have "(1::real) \<le> 2 powi f" using f0 by (simp add: power_int_def)
    ultimately show ?thesis by simp
  qed
  show ?thesis
    using goal abs_round_to_double [OF x0]
    by (simp add: m_def [symmetric] e u_def [symmetric])
qed

lemma round_to_double_tie_at_half: "round_to_double (1 / 2 + 1 / 2 ^ 54) = 1 / 2"
proof -
  define m :: real where "m = 1 / 2 + 1 / 2 ^ 54"
  have "\<lfloor>log 2 m\<rfloor> = - 1"
    using floor_log_eq_powr_iff [of m 2 "- 1"] by (simp add: m_def powr_minus_divide)
  then have e: "double_exponent m = - 1" by (simp add: double_exponent_def)
  have q: "m / 2 powi (- 53) = 2 ^ 52 + 1 / 2" by (simp add: m_def power_int_minus_divide)
  have fl: "\<lfloor>(2 ^ 52 + 1 / 2 :: real)\<rfloor> = 2 ^ 52"
    by (simp add: floor_eq_iff)
  have "round_half_even (2 ^ 52 + 1 / 2) = 2 ^ 52"
    unfolding round_half_even_def Let_def fl by simp
  then have "round_to_double m = 1 / 2"
    using e q
    by (simp add: round_to_double_def m_def [symmetric] Let_def power_int_minus_divide,
        simp add: m_def)
  then show ?thesis by (simp add: m_def)
qed

lemma round_half_even_of_int: "round_half_even (of_int n) = n"
  by (simp add: round_half_even_def Let_def)

lemma stamp_gap: "stamp_0999 - stamp_0499 = 1 / 2 + 1 / 2 ^ 54"
  by (simp add: stamp_0999_def stamp_0499_def)

lemma stamp_0999_is_double: "round_to_double stamp_0999 = stamp_0999"
proof -
  have "\<lfloor>log 2 stamp_0999\<rfloor> = - 1"
    using floor_log_eq_powr_iff [of stamp_0999 2 "- 1"]
    by (simp add: stamp_0999_def powr_minus_divide)
  then have e: "double_exponent stamp_0999 = - 1" by (simp add: double_exponent_def)
  have q: "stamp_0999 / 2 powi (- 53) = 8998192055486252"
    by (simp add: stamp_0999_def power_int_minus_divide)
  have r: "round_half_even 8998192055486252 = 8998192055486252"
    using round_half_even_of_int [of 8998192055486252] by simp
  have p: "(0::real) < stamp_0999" by (simp add: stamp_0999_def)
  show ?thesis
    using p unfolding round_to_double_def Let_def
    by (simp add: e q r) (simp add: stamp_0999_def power_int_minus_divide r)
qed

lemma stamp_0499_is_double: "round_to_double stamp_0499 = stamp_0499"
proof -
  have "\<lfloor>log 2 stamp_0499\<rfloor> = - 2"
    using floor_log_eq_powr_iff [of stamp_0499 2 "- 2"]
    by (simp add: stamp_0499_def powr_minus_divide)
  then have e: "double_exponent stamp_0499 = - 2" by (simp add: double_exponent_def)
  have q: "stamp_0499 / 2 powi (- 54) = 8989184856231511"
    by (simp add: stamp_0499_def power_int_minus_divide)
  have r: "round_half_even 8989184856231511 = 8989184856231511"
    using round_half_even_of_int [of 8989184856231511] by simp
  have p: "(0::real) < stamp_0499" by (simp add: stamp_0499_def)
  show ?thesis
    using p unfolding round_to_double_def Let_def
    by (simp add: e q r) (simp add: stamp_0499_def power_int_minus_divide r)
qed


section \<open>The callback, step by step\<close>

lemma nth_pose_covariance_of:
  "i < 6 \<Longrightarrow> j < 6 \<Longrightarrow>
   pose_covariance_of P ! (6 * i + j) =
     P (if i < 3 then i else i + 3) (if j < 3 then j else j + 3)"
  apply (subgoal_tac "6 * i + j < 36")
  apply (simp add: pose_covariance_of_def Let_def data_row_major_def comma_init_blocks_def
      set_block33_def setZero_def block33_def mcoeff_to_mat3)
   apply (auto simp: add.commute)
  done

lemma publish_save_state_fields:
  "kf_ptr (publish_save_state ext now node) = kf_ptr node"
  "init_lla (publish_save_state ext now node) = init_lla node"
  "I_p_Gps (publish_save_state ext now node) = I_p_Gps node"
  "file_gps (publish_save_state ext now node) = file_gps node"
  "console (publish_save_state ext now node) = console node"
  by (simp_all add: publish_save_state_def Let_def)

lemma gps_update_fields:
  "kf_ptr (gps_update ext now node gps_data) =
     (update_P (kf_ptr node) (gps_jacobian node) (gps_cov gps_data)
        (update_K ext (kf_ptr node) (gps_jacobian node) (gps_cov gps_data)))
     \<lparr>state_ptr := state_plus
        (state_ptr (update_P (kf_ptr node) (gps_jacobian node) (gps_cov gps_data)
           (update_K ext (kf_ptr node) (gps_jacobian node) (gps_cov gps_data))))
        (dmat_vec3 (update_K ext (kf_ptr node) (gps_jacobian node) (gps_cov gps_data))
           (gps_residual ext node gps_data))\<rparr>"
  "init_lla (gps_update ext now node gps_data) = init_lla node"
  "I_p_Gps (gps_update ext now node gps_data) = I_p_Gps node"
  by (simp_all add: gps_update_def Let_def publish_save_state_fields)

lemma gps_update_state:
  "state_ptr (kf_ptr (gps_update ext now node gps_data)) =
     state_plus
       (state_ptr (update_P (kf_ptr node) (gps_jacobian node) (gps_cov gps_data)
          (update_K ext (kf_ptr node) (gps_jacobian node) (gps_cov gps_data))))
       (dmat_vec3 (update_K ext (kf_ptr node) (gps_jacobian node) (gps_cov gps_data))
          (gps_residual ext node gps_data))"
  by (simp add: gps_update_fields)

lemma gps_update_cov:
  "cov (state_ptr (kf_ptr (gps_update ext now node gps_data))) =
     cov (state_ptr (update_P (kf_ptr node) (gps_jacobian node) (gps_cov gps_data)
       (update_K ext (kf_ptr node) (gps_jacobian node) (gps_cov gps_data))))"
  by (simp add: gps_update_state state_plus_def)

lemma gps_update_odom:
  "\<exists>msg. odom_pub (gps_update ext now node gps_data) = odom_pub node @ [msg] \<and>
         pose_covariance msg =
           pose_covariance_of (cov (state_ptr (kf_ptr (gps_update ext now node gps_data))))"
  by (simp add: gps_update_def Let_def publish_save_state_def)

lemma gps_callback_update:
  assumes "status gps_msg = 2" and "initialized (kf_ptr node)"
  shows "gps_callback ext now node gps_msg = Inr (gps_update ext now node (gps_data_of gps_msg))"
  using assms by (simp add: gps_callback_def)

lemma residual_after_update:
  assumes l: "I_p_Gps node = Vec3 0 0 0"
    and S: "inverse3 (madd (block33 (cov (state_ptr (kf_ptr node))) 0 0) (gps_cov d)) = Some S_inv"
  shows "gps_residual ext (gps_update ext now node d) d =
           mat_vec (mat_mul (gps_cov d) S_inv) (gps_residual ext node d)"
proof -
  define P where "P = cov (state_ptr (kf_ptr node))"
  define r where "r = gps_residual ext node d"
  define z where "z = lla2enu ext (init_lla node) (lla d)"
  define K where "K = update_K ext (kf_ptr node) (gps_jacobian node) (gps_cov d)"
  define node' where "node' = gps_update ext now node d"
  have KK: "K = dmat_mul 3 (\<lambda>i j. if j < 3 then P i j else 0) (of_mat3 S_inv)"
    unfolding K_def P_def using update_K_zero_lever [OF l, of ext "gps_cov d"] S by simp
  have n': "init_lla node' = init_lla node" "I_p_Gps node' = Vec3 0 0 0"
    using l by (simp_all add: node'_def gps_update_fields)
  have p': "p_GI (state_ptr (kf_ptr node')) =
            vadd (p_GI (state_ptr (kf_ptr node))) (segment3 (dmat_vec3 K r) 0)"
    by (simp add: node'_def gps_update_state state_plus_def update_P_def K_def r_def)
  have top: "segment3 (dmat_vec3 K r) 0 = mat_vec (mat_mul (block33 P 0 0) S_inv) r"
    unfolding KK by (rule gain_block) simp
  have r0: "r = vsub z (p_GI (state_ptr (kf_ptr node)))"
    by (simp add: r_def z_def gps_residual_def predicted_zero_lever [OF l])
  have r1: "gps_residual ext node' d =
            vsub z (vadd (p_GI (state_ptr (kf_ptr node))) (mat_vec (mat_mul (block33 P 0 0) S_inv) r))"
    by (simp add: gps_residual_def predicted_zero_lever [OF n'(2)] n'(1) z_def p' top)
  have "mat_mul (madd (block33 P 0 0) (gps_cov d)) S_inv = mident"
    using S unfolding P_def by (rule inverse3_right)
  then have "vadd (mat_vec (mat_mul (block33 P 0 0) S_inv) r) (mat_vec (mat_mul (gps_cov d) S_inv) r) = r"
    by (metis mat_mul_madd_left mat_vec_madd mat_vec_mident)
  from vsub_vadd_split [OF this, of z "p_GI (state_ptr (kf_ptr node))"]
  have "gps_residual ext node' d = mat_vec (mat_mul (gps_cov d) S_inv) r"
    unfolding r1 r0 [symmetric] by metis
  then show ?thesis by (simp add: node'_def r_def)
qed

lemma gps_callback_lever:
  assumes "gps_callback ext now node gps_msg = Inr node'"
  shows "I_p_Gps node' = I_p_Gps node"
proof (cases "status gps_msg = 2")
  case False
  then show ?thesis using assms by (auto simp: gps_callback_def)
next
  case True
  show ?thesis
  proof (cases "initialized (kf_ptr node)")
    case True
    with \<open>status gps_msg = 2\<close> assms show ?thesis
      by (auto simp: gps_callback_update gps_update_fields)
  next
    case False
    with \<open>status gps_msg = 2\<close> assms
    have "gps_initialize ext node (gps_data_of gps_msg) = Inr node'"
      by (simp add: gps_callback_def)
    then show ?thesis
      by (auto simp: gps_initialize_def Let_def split: if_splits prod.splits)
  qed
qed

lemma reachable_lever: "reachable ext node \<Longrightarrow> I_p_Gps node = Vec3 0 0 0"
proof (induction rule: reachable.induct)
  case (reach_new kf0 lla0)
  then show ?case by (simp add: FusionNode_new_def)
next
  case (reach_gps node now gps_msg node')
  then show ?case using gps_callback_lever by metis
next
  case (reach_imu node kf')
  then show ?case by simp
qed

lemma gps_callback_keeps_initialized:
  assumes "initialized (kf_ptr node)" and "gps_callback ext now node gps_msg = Inr node'"
  shows "initialized (kf_ptr node') \<and> init_lla node' = init_lla node"
proof (cases "status gps_msg = 2")
  case False
  then show ?thesis using assms by (auto simp: gps_callback_def)
next
  case True
  with assms show ?thesis
    by (auto simp: gps_callback_update gps_update_fields update_P_def)
qed

lemma state_up_to_timestamp: "\<exists>t. (s::State) = s\<lparr>timestamp := t\<rparr>"
  by (rule exI [of _ "timestamp s"]) simp

lemma lopsided_update:
  "i < kStateDim \<Longrightarrow>
   cov (state_ptr (kf_ptr (gps_update ext now (FusionNode_new lopsided_kf a)
      (gps_data_of (unit_fix 2 1))))) i j =
   cov (state_ptr lopsided_kf) i j -
     sum_upto 3 (\<lambda>k. (cov (state_ptr lopsided_kf) i k / 2) * cov (state_ptr lopsided_kf) k j)"
proof -
  assume i: "i < kStateDim"
  let ?N = "FusionNode_new lopsided_kf a"
  let ?d = "gps_data_of (unit_fix 2 1)"
  let ?H = "Mat3 (Vec3 (1 / 2) 0 0) (Vec3 0 (1 / 2) 0) (Vec3 0 0 (1 / 2))"
  have l: "I_p_Gps ?N = Vec3 0 0 0" by (simp add: FusionNode_new_def)
  have k: "kf_ptr ?N = lopsided_kf" by (simp add: FusionNode_new_def)
  have R: "gps_cov ?d = Mat3 (Vec3 1 0 0) (Vec3 0 1 0) (Vec3 0 0 1)"
    by (simp add: gps_data_of_def unit_fix_def map_matrix3d_def to_mat3_def to_vec3_def)
  have P0: "block33 (cov (state_ptr lopsided_kf)) 0 0 = Mat3 (Vec3 1 0 0) (Vec3 0 1 0) (Vec3 0 0 1)"
    by (simp add: lopsided_kf_def block33_def to_mat3_def to_vec3_def)
  have inv: "inverse3 (madd (block33 (cov (state_ptr lopsided_kf)) 0 0) (gps_cov ?d)) = Some ?H"
    unfolding P0 R by (simp add: inverse3_def)
  have K: "update_K ext lopsided_kf (gps_jacobian ?N) (gps_cov ?d) =
           dmat_mul 3 (\<lambda>i j. if j < 3 then cov (state_ptr lopsided_kf) i j else 0) (of_mat3 ?H)"
    using update_K_zero_lever [OF l, of ext "gps_cov ?d"] unfolding k inv by simp
  have Kik: "dmat_mul 3 (\<lambda>i j. if j < 3 then cov (state_ptr lopsided_kf) i j else 0) (of_mat3 ?H) i k =
             cov (state_ptr lopsided_kf) i k / 2" if "k < 3" for k
  proof -
    from that have "k = 0 \<or> k = 1 \<or> k = 2" by arith
    then show ?thesis by (auto simp: dmat_mul_def sum_upto_3 of_mat3_def mcoeff_def)
  qed
  have k0: "(0::nat) < 3" and k1: "(1::nat) < 3" and k2: "(2::nat) < 3" by simp_all
  have "cov (state_ptr (kf_ptr (gps_update ext now ?N ?d))) i j =
        cov (state_ptr lopsided_kf) i j -
          sum_upto 3 (\<lambda>k. update_K ext lopsided_kf (gps_jacobian ?N) (gps_cov ?d) i k *
             cov (state_ptr lopsided_kf) k j)"
    using update_P_zero_lever [OF l i, of "gps_cov ?d"
        "update_K ext lopsided_kf (gps_jacobian ?N) (gps_cov ?d)" j]
    by (simp add: gps_update_cov k)
  also have "\<dots> = cov (state_ptr lopsided_kf) i j -
          sum_upto 3 (\<lambda>k. (cov (state_ptr lopsided_kf) i k / 2) * cov (state_ptr lopsided_kf) k j)"
    unfolding K sum_upto_3 Kik [OF k0] Kik [OF k1] Kik [OF k2] ..
  finally show ?thesis .
qed


section \<open>The claims\<close>

text \<open>
  A fix for which the corrected state is further from the measurement than the state
  before the correction. The filter is initialized, its position is (0, -1, 0) with
  variances 8, 1/8 and 1, and the fix is at the anchor, so its converted position is the
  origin; its covariance (rows 1 1 0, 1 2 0 and 0 0 1, of determinant 1) couples the
  first two axes. The innovation covariance has rows 9 1 0, 1 17/8 0 and 0 0 2. The
  residual is (0, 1, 0) before the update and (64/145, 136/145, 0) after it, of squared
  lengths 1 and 22592/21025: the second vector is the longer one.
\<close>

theorem residual_norm_can_grow:
  "status correlated_fix = 2 \<and>
   initialized (kf_ptr (FusionNode_new uneven_kf (Vec3 0 0 0))) \<and>
   gps_cov (gps_data_of correlated_fix) = Mat3 (Vec3 1 1 0) (Vec3 1 2 0) (Vec3 0 0 1) \<and>
   det3 (gps_cov (gps_data_of correlated_fix)) = 1 \<and>
   block33 (cov (state_ptr (kf_ptr (FusionNode_new uneven_kf (Vec3 0 0 0))))) 0 0 =
     Mat3 (Vec3 8 0 0) (Vec3 0 (1 / 8) 0) (Vec3 0 0 1) \<and>
   gps_residual (flat_externals Map.empty) (FusionNode_new uneven_kf (Vec3 0 0 0))
      (gps_data_of correlated_fix) = Vec3 0 1 0 \<and>
   map_sum id (\<lambda>node'. gps_residual (flat_externals Map.empty) node' (gps_data_of correlated_fix))
      (gps_callback (flat_externals Map.empty) 0 (FusionNode_new uneven_kf (Vec3 0 0 0))
         correlated_fix) = Inr (Vec3 (64 / 145) (136 / 145) 0) \<and>
   \<not> vnorm (Vec3 (64 / 145) (136 / 145) 0) < vnorm (Vec3 0 1 0)"
proof -
  let ?N = "FusionNode_new uneven_kf (Vec3 0 0 0)"
  let ?E = "flat_externals Map.empty"
  let ?d = "gps_data_of correlated_fix"
  have s: "status correlated_fix = 2" by (simp add: correlated_fix_def)
  have i: "initialized (kf_ptr ?N)"
    by (simp add: FusionNode_new_def uneven_kf_def running_kf_def)
  have l: "I_p_Gps ?N = Vec3 0 0 0" by (simp add: FusionNode_new_def)
  have R: "gps_cov ?d = Mat3 (Vec3 1 1 0) (Vec3 1 2 0) (Vec3 0 0 1)"
    by (simp add: gps_data_of_def correlated_fix_def map_matrix3d_def to_mat3_def to_vec3_def)
  have P: "block33 (cov (state_ptr (kf_ptr ?N))) 0 0 = Mat3 (Vec3 8 0 0) (Vec3 0 (1 / 8) 0) (Vec3 0 0 1)"
    by (simp add: FusionNode_new_def uneven_kf_def running_kf_def block33_def to_mat3_def to_vec3_def)
  have S: "madd (block33 (cov (state_ptr (kf_ptr ?N))) 0 0) (gps_cov ?d) =
           Mat3 (Vec3 9 1 0) (Vec3 1 (17 / 8) 0) (Vec3 0 0 2)"
    by (simp add: P R)
  have inv: "inverse3 (Mat3 (Vec3 9 1 0) (Vec3 1 (17 / 8) 0) (Vec3 0 0 2)) =
             Some (Mat3 (Vec3 (17 / 145) (- 8 / 145) 0) (Vec3 (- 8 / 145) (72 / 145) 0) (Vec3 0 0 (1 / 2)))"
    by (simp add: inverse3_def)
  have r: "gps_residual ?E ?N ?d = Vec3 0 1 0"
    by (simp add: gps_residual_def predicted_position_def flat_externals_def gps_data_of_def
        correlated_fix_def FusionNode_new_def uneven_kf_def running_kf_def origin_state_def
        mident_def)
  have c: "gps_callback ?E 0 ?N correlated_fix = Inr (gps_update ?E 0 ?N ?d)"
    using s i by (rule gps_callback_update)
  have a: "inverse3 (madd (block33 (cov (state_ptr (kf_ptr ?N))) 0 0) (gps_cov ?d)) =
             Some (Mat3 (Vec3 (17 / 145) (- 8 / 145) 0) (Vec3 (- 8 / 145) (72 / 145) 0) (Vec3 0 0 (1 / 2)))"
    unfolding S by (rule inv)
  have "gps_residual ?E (gps_update ?E 0 ?N ?d) ?d = Vec3 (64 / 145) (136 / 145) 0"
    unfolding residual_after_update [OF l a] r R by (simp add: mat_mul_coeffs)
  then have m: "map_sum id (\<lambda>node'. gps_residual ?E node' ?d) (gps_callback ?E 0 ?N correlated_fix) =
             Inr (Vec3 (64 / 145) (136 / 145) 0)"
    by (simp add: c)
  have n: "\<not> vnorm (Vec3 (64 / 145) (136 / 145) 0) < vnorm (Vec3 0 1 0)"
    by (simp add: vnorm_less_iff)
  have "det3 (gps_cov ?d) = 1" by (simp add: R)
  then show ?thesis using s i R P r m n by blast
qed

text \<open>
  Claim C1, amended. Let an accepted fix reach an initialized filter of a node whose
  lever arm is zero, with an invertible innovation covariance \<open>P\<^sub>p\<^sub>p + R\<close>, where \<open>P\<^sub>p\<^sub>p\<close> is
  the position block of the error covariance and \<open>R\<close> the covariance of the fix. Then
  the update is carried out, and the residual recomputed against the corrected state
  is \<open>R (P\<^sub>p\<^sub>p + R)\<^sup>-\<^sup>1\<close> times the residual before the correction. A zero residual stays
  zero. The recomputed residual is strictly shorter than the residual before the
  correction when that residual is not zero, \<open>R\<close> is a positive multiple of the identity
  and \<open>P\<^sub>p\<^sub>p\<close> is positive definite.
\<close>

theorem residual_after_correction:
  assumes "status gps_msg = 2" and "initialized (kf_ptr node)"
    and "I_p_Gps node = Vec3 0 0 0"
    and "inverse3 (madd (block33 (cov (state_ptr (kf_ptr node))) 0 0)
           (gps_cov (gps_data_of gps_msg))) = Some S_inv"
  shows "\<exists>node'. gps_callback ext now node gps_msg = Inr node' \<and>
           gps_residual ext node' (gps_data_of gps_msg) =
             mat_vec (mat_mul (gps_cov (gps_data_of gps_msg)) S_inv)
               (gps_residual ext node (gps_data_of gps_msg)) \<and>
           (gps_residual ext node (gps_data_of gps_msg) = Vec3 0 0 0 \<longrightarrow>
              gps_residual ext node' (gps_data_of gps_msg) = Vec3 0 0 0) \<and>
           (gps_cov (gps_data_of gps_msg) = mscale k mident \<and> 0 < k \<and>
            (\<forall>v. v \<noteq> Vec3 0 0 0 \<longrightarrow>
                  0 < vdot v (mat_vec (block33 (cov (state_ptr (kf_ptr node))) 0 0) v)) \<and>
            gps_residual ext node (gps_data_of gps_msg) \<noteq> Vec3 0 0 0 \<longrightarrow>
              vnorm (gps_residual ext node' (gps_data_of gps_msg)) <
              vnorm (gps_residual ext node (gps_data_of gps_msg)))"
proof -
  define node' where "node' = gps_update ext now node (gps_data_of gps_msg)"
  have c: "gps_callback ext now node gps_msg = Inr node'"
    unfolding node'_def using assms(1,2) by (rule gps_callback_update)
  have R: "gps_residual ext node' (gps_data_of gps_msg) =
          mat_vec (mat_mul (gps_cov (gps_data_of gps_msg)) S_inv)
            (gps_residual ext node (gps_data_of gps_msg))"
    unfolding node'_def using assms(3,4) by (rule residual_after_update)
  have 2: "gps_residual ext node (gps_data_of gps_msg) = Vec3 0 0 0 \<longrightarrow>
            gps_residual ext node' (gps_data_of gps_msg) = Vec3 0 0 0"
    by (simp add: R mat_vec_zero)
  have 3: "gps_cov (gps_data_of gps_msg) = mscale k mident \<and> 0 < k \<and>
          (\<forall>v. v \<noteq> Vec3 0 0 0 \<longrightarrow>
                0 < vdot v (mat_vec (block33 (cov (state_ptr (kf_ptr node))) 0 0) v)) \<and>
          gps_residual ext node (gps_data_of gps_msg) \<noteq> Vec3 0 0 0 \<longrightarrow>
            vnorm (gps_residual ext node' (gps_data_of gps_msg)) <
            vnorm (gps_residual ext node (gps_data_of gps_msg))"
  proof
    assume h: "gps_cov (gps_data_of gps_msg) = mscale k mident \<and> 0 < k \<and>
          (\<forall>v. v \<noteq> Vec3 0 0 0 \<longrightarrow>
                0 < vdot v (mat_vec (block33 (cov (state_ptr (kf_ptr node))) 0 0) v)) \<and>
          gps_residual ext node (gps_data_of gps_msg) \<noteq> Vec3 0 0 0"
    have S': "inverse3 (madd (block33 (cov (state_ptr (kf_ptr node))) 0 0) (mscale k mident)) =
              Some S_inv"
      using assms(4) h by simp
    show "vnorm (gps_residual ext node' (gps_data_of gps_msg)) <
            vnorm (gps_residual ext node (gps_data_of gps_msg))"
      unfolding R using isotropic_norm_drop [OF S'] h by simp
  qed
  show ?thesis using c R 2 3 by blast
qed

theorem residual_after_correction_witness:
  "\<exists>node'. status (unit_fix 2 1) = 2 \<and>
     initialized (kf_ptr (FusionNode_new offset_kf (Vec3 0 0 0))) \<and>
     I_p_Gps (FusionNode_new offset_kf (Vec3 0 0 0)) = Vec3 0 0 0 \<and>
     inverse3 (madd (block33 (cov (state_ptr (kf_ptr (FusionNode_new offset_kf (Vec3 0 0 0))))) 0 0)
        (gps_cov (gps_data_of (unit_fix 2 1)))) =
       Some (Mat3 (Vec3 (1 / 2) 0 0) (Vec3 0 (1 / 2) 0) (Vec3 0 0 (1 / 2))) \<and>
     gps_callback (flat_externals Map.empty) 0 (FusionNode_new offset_kf (Vec3 0 0 0))
        (unit_fix 2 1) = Inr node' \<and>
     gps_cov (gps_data_of (unit_fix 2 1)) = mscale 1 mident \<and>
     gps_residual (flat_externals Map.empty) (FusionNode_new offset_kf (Vec3 0 0 0))
        (gps_data_of (unit_fix 2 1)) = Vec3 0 0 1 \<and>
     gps_residual (flat_externals Map.empty) node' (gps_data_of (unit_fix 2 1)) = Vec3 0 0 (1 / 2) \<and>
     vnorm (gps_residual (flat_externals Map.empty) node' (gps_data_of (unit_fix 2 1))) <
     vnorm (gps_residual (flat_externals Map.empty) (FusionNode_new offset_kf (Vec3 0 0 0))
        (gps_data_of (unit_fix 2 1)))"
proof -
  let ?N = "FusionNode_new offset_kf (Vec3 0 0 0)"
  let ?E = "flat_externals Map.empty"
  let ?d = "gps_data_of (unit_fix 2 1)"
  let ?H = "Mat3 (Vec3 (1 / 2) 0 0) (Vec3 0 (1 / 2) 0) (Vec3 0 0 (1 / 2))"
  have s: "status (unit_fix 2 1) = 2" by (simp add: unit_fix_def)
  have i: "initialized (kf_ptr ?N)" by (simp add: FusionNode_new_def offset_kf_def running_kf_def)
  have l: "I_p_Gps ?N = Vec3 0 0 0" by (simp add: FusionNode_new_def)
  have R: "gps_cov ?d = mscale 1 mident"
    by (simp add: gps_data_of_def unit_fix_def map_matrix3d_def to_mat3_def to_vec3_def mident_def)
  have P: "block33 (cov (state_ptr (kf_ptr ?N))) 0 0 = mident"
    by (simp add: FusionNode_new_def offset_kf_def running_kf_def waiting_kf_def origin_state_def
        dident_def block33_def to_mat3_def to_vec3_def mident_def)
  have pd: "\<forall>v. v \<noteq> Vec3 0 0 0 \<longrightarrow> 0 < vdot v (mat_vec (block33 (cov (state_ptr (kf_ptr ?N))) 0 0) v)"
    by (simp add: P mat_vec_mident vdot_self_pos)
  have S: "madd (block33 (cov (state_ptr (kf_ptr ?N))) 0 0) (gps_cov ?d) =
           Mat3 (Vec3 2 0 0) (Vec3 0 2 0) (Vec3 0 0 2)"
    by (simp add: P R mident_def)
  have inv: "inverse3 (madd (block33 (cov (state_ptr (kf_ptr ?N))) 0 0) (gps_cov ?d)) = Some ?H"
    unfolding S by (simp add: inverse3_def)
  have r: "gps_residual ?E ?N ?d = Vec3 0 0 1"
    by (simp add: gps_residual_def predicted_position_def flat_externals_def gps_data_of_def
        unit_fix_def FusionNode_new_def offset_kf_def running_kf_def waiting_kf_def
        origin_state_def mident_def)
  then have r0: "gps_residual ?E ?N ?d \<noteq> Vec3 0 0 0" by simp
  obtain node' where c: "gps_callback ?E 0 ?N (unit_fix 2 1) = Inr node'"
    and b: "gps_residual ?E node' ?d = mat_vec (mat_mul (gps_cov ?d) ?H) (gps_residual ?E ?N ?d)"
    and t: "gps_cov ?d = mscale 1 mident \<and> 0 < (1::real) \<and>
            (\<forall>v. v \<noteq> Vec3 0 0 0 \<longrightarrow>
                  0 < vdot v (mat_vec (block33 (cov (state_ptr (kf_ptr ?N))) 0 0) v)) \<and>
            gps_residual ?E ?N ?d \<noteq> Vec3 0 0 0 \<longrightarrow>
              vnorm (gps_residual ?E node' ?d) < vnorm (gps_residual ?E ?N ?d)"
    using residual_after_correction [OF s i l inv, of ?E 0 1] by blast
  have after: "gps_residual ?E node' ?d = Vec3 0 0 (1 / 2)"
    unfolding b r by (simp add: R mat_mul_coeffs mident_def)
  have less: "vnorm (gps_residual ?E node' ?d) < vnorm (gps_residual ?E ?N ?d)"
  proof (rule mp [OF t])
    show "gps_cov ?d = mscale 1 mident \<and> 0 < (1::real) \<and>
          (\<forall>v. v \<noteq> Vec3 0 0 0 \<longrightarrow>
                0 < vdot v (mat_vec (block33 (cov (state_ptr (kf_ptr ?N))) 0 0) v)) \<and>
          gps_residual ?E ?N ?d \<noteq> Vec3 0 0 0"
      using R pd r0 by (intro conjI) simp_all
  qed
  show ?thesis using s i l inv c R r after less by blast
qed

text \<open>
  Claim C2. When an accepted fix reaches an initialized filter whose orientation is a
  valid rotation, the update is carried out and the orientation after it is a valid
  rotation: it is the orientation before the update composed on the right with the
  rotation of the orientation part of the correction \<open>delta_x = K \<cdot> residual\<close>, itself a
  valid rotation. Here \<open>K\<close> is the gain that \<open>update_K\<close> returns, whatever the innovation
  covariance and the matrix taken for its inverse. Position, velocity and the two biases
  are the previous values plus their parts of the correction.
\<close>

theorem update_keeps_orientation_a_rotation:
  assumes "status gps_msg = 2" and "initialized (kf_ptr node)"
    and "is_rotation (r_GI (state_ptr (kf_ptr node)))"
    and "delta_x = dmat_vec3 (update_K ext (kf_ptr node) (gps_jacobian node)
                     (gps_cov (gps_data_of gps_msg)))
                   (gps_residual ext node (gps_data_of gps_msg))"
  shows "\<exists>node'. gps_callback ext now node gps_msg = Inr node' \<and>
           is_rotation (r_GI (state_ptr (kf_ptr node'))) \<and>
           r_GI (state_ptr (kf_ptr node')) =
             mat_mul (r_GI (state_ptr (kf_ptr node))) (rotation_of (segment3 delta_x 6)) \<and>
           is_rotation (rotation_of (segment3 delta_x 6)) \<and>
           p_GI (state_ptr (kf_ptr node')) =
             vadd (p_GI (state_ptr (kf_ptr node))) (segment3 delta_x 0) \<and>
           v_GI (state_ptr (kf_ptr node')) =
             vadd (v_GI (state_ptr (kf_ptr node))) (segment3 delta_x 3) \<and>
           acc_bias (state_ptr (kf_ptr node')) =
             vadd (acc_bias (state_ptr (kf_ptr node))) (segment3 delta_x 9) \<and>
           gyr_bias (state_ptr (kf_ptr node')) =
             vadd (gyr_bias (state_ptr (kf_ptr node))) (segment3 delta_x 12)"
proof -
  define node' where "node' = gps_update ext now node (gps_data_of gps_msg)"
  have c: "gps_callback ext now node gps_msg = Inr node'"
    unfolding node'_def using assms(1,2) by (rule gps_callback_update)
  have st: "state_ptr (kf_ptr node') =
      state_plus (state_ptr (update_P (kf_ptr node) (gps_jacobian node)
         (gps_cov (gps_data_of gps_msg))
         (update_K ext (kf_ptr node) (gps_jacobian node) (gps_cov (gps_data_of gps_msg)))))
        delta_x"
    by (simp add: node'_def gps_update_state assms(4))
  have r: "r_GI (state_ptr (kf_ptr node')) =
      mat_mul (r_GI (state_ptr (kf_ptr node))) (rotation_of (segment3 delta_x 6))"
    by (simp add: st state_plus_def update_P_def)
  have rot: "is_rotation (r_GI (state_ptr (kf_ptr node')))"
    unfolding r using assms(3) is_rotation_rotation_of by (rule is_rotation_mat_mul)
  have rest: "p_GI (state_ptr (kf_ptr node')) =
                  vadd (p_GI (state_ptr (kf_ptr node))) (segment3 delta_x 0)"
    "v_GI (state_ptr (kf_ptr node')) =
                  vadd (v_GI (state_ptr (kf_ptr node))) (segment3 delta_x 3)"
    "acc_bias (state_ptr (kf_ptr node')) =
                  vadd (acc_bias (state_ptr (kf_ptr node))) (segment3 delta_x 9)"
    "gyr_bias (state_ptr (kf_ptr node')) =
                  vadd (gyr_bias (state_ptr (kf_ptr node))) (segment3 delta_x 12)"
    by (simp_all add: st state_plus_def update_P_def)
  show ?thesis
    using c rot r rest is_rotation_rotation_of [of "segment3 delta_x 6"] by blast
qed

theorem update_keeps_orientation_a_rotation_witness:
  "\<exists>node'. status (unit_fix 2 1) = 2 \<and>
     initialized (kf_ptr (FusionNode_new coupled_kf (Vec3 0 0 0))) \<and>
     r_GI (state_ptr (kf_ptr (FusionNode_new coupled_kf (Vec3 0 0 0)))) =
       Mat3 (Vec3 0 (- 1) 0) (Vec3 1 0 0) (Vec3 0 0 1) \<and>
     is_rotation (r_GI (state_ptr (kf_ptr (FusionNode_new coupled_kf (Vec3 0 0 0))))) \<and>
     segment3 (dmat_vec3 (update_K (flat_externals Map.empty)
                  (kf_ptr (FusionNode_new coupled_kf (Vec3 0 0 0)))
                  (gps_jacobian (FusionNode_new coupled_kf (Vec3 0 0 0)))
                  (gps_cov (gps_data_of (unit_fix 2 1))))
                (gps_residual (flat_externals Map.empty) (FusionNode_new coupled_kf (Vec3 0 0 0))
                  (gps_data_of (unit_fix 2 1)))) 6 = Vec3 (pi / 2) 0 0 \<and>
     rotation_of (Vec3 (pi / 2) 0 0) = Mat3 (Vec3 1 0 0) (Vec3 0 0 (- 1)) (Vec3 0 1 0) \<and>
     gps_callback (flat_externals Map.empty) 0 (FusionNode_new coupled_kf (Vec3 0 0 0))
        (unit_fix 2 1) = Inr node' \<and>
     r_GI (state_ptr (kf_ptr node')) = Mat3 (Vec3 0 0 1) (Vec3 1 0 0) (Vec3 0 1 0) \<and>
     is_rotation (r_GI (state_ptr (kf_ptr node'))) \<and>
     p_GI (state_ptr (kf_ptr node')) = Vec3 (- (pi / 2)) 0 0"
proof -
  let ?N = "FusionNode_new coupled_kf (Vec3 0 0 0)"
  let ?E = "flat_externals Map.empty"
  let ?d = "gps_data_of (unit_fix 2 1)"
  let ?H = "Mat3 (Vec3 (1 / 2) 0 0) (Vec3 0 (1 / 2) 0) (Vec3 0 0 (1 / 2))"
  let ?P = "cov (state_ptr (kf_ptr ?N))"
  define delta_x where "delta_x = dmat_vec3 (update_K ?E (kf_ptr ?N) (gps_jacobian ?N) (gps_cov ?d))
                   (gps_residual ?E ?N ?d)"
  have s: "status (unit_fix 2 1) = 2" by (simp add: unit_fix_def)
  have i: "initialized (kf_ptr ?N)" by (simp add: FusionNode_new_def coupled_kf_def running_kf_def)
  have l: "I_p_Gps ?N = Vec3 0 0 0" by (simp add: FusionNode_new_def)
  have q: "r_GI (state_ptr (kf_ptr ?N)) = Mat3 (Vec3 0 (- 1) 0) (Vec3 1 0 0) (Vec3 0 0 1)"
    by (simp add: FusionNode_new_def coupled_kf_def running_kf_def quarter_turn_def)
  have rot: "is_rotation (r_GI (state_ptr (kf_ptr ?N)))"
    using is_rotation_quarter_turn by (simp add: q quarter_turn_def)
  have p: "p_GI (state_ptr (kf_ptr ?N)) = Vec3 (- pi) 0 0"
    by (simp add: FusionNode_new_def coupled_kf_def running_kf_def)
  have R: "gps_cov ?d = Mat3 (Vec3 1 0 0) (Vec3 0 1 0) (Vec3 0 0 1)"
    by (simp add: gps_data_of_def unit_fix_def map_matrix3d_def to_mat3_def to_vec3_def)
  have P0: "block33 ?P 0 0 = Mat3 (Vec3 1 0 0) (Vec3 0 1 0) (Vec3 0 0 1)"
    by (simp add: FusionNode_new_def coupled_kf_def running_kf_def block33_def to_mat3_def
        to_vec3_def)
  have P6: "block33 ?P 6 0 = Mat3 (Vec3 1 0 0) (Vec3 0 0 0) (Vec3 0 0 0)"
    by (simp add: FusionNode_new_def coupled_kf_def running_kf_def block33_def to_mat3_def
        to_vec3_def)
  have inv: "inverse3 (madd (block33 ?P 0 0) (gps_cov ?d)) = Some ?H"
    unfolding P0 R by (simp add: inverse3_def)
  have K: "update_K ?E (kf_ptr ?N) (gps_jacobian ?N) (gps_cov ?d) =
           dmat_mul 3 (\<lambda>i j. if j < 3 then ?P i j else 0) (of_mat3 ?H)"
    unfolding update_K_zero_lever [OF l] inv by simp
  have r: "gps_residual ?E ?N ?d = Vec3 pi 0 0"
    unfolding gps_residual_def predicted_zero_lever [OF l] p Let_def
    by (simp add: flat_externals_def gps_data_of_def unit_fix_def FusionNode_new_def)
  have d6: "segment3 delta_x 6 = Vec3 (pi / 2) 0 0"
    unfolding delta_x_def K r
    by (subst gain_block [where P = ?P]) (simp_all add: P6 mat_mul_coeffs)
  have d0: "segment3 delta_x 0 = Vec3 (pi / 2) 0 0"
    unfolding delta_x_def K r
    by (subst gain_block [where P = ?P]) (simp_all add: P0 mat_mul_coeffs)
  obtain node' where c: "gps_callback ?E 0 ?N (unit_fix 2 1) = Inr node'"
    and r': "r_GI (state_ptr (kf_ptr node')) =
             mat_mul (r_GI (state_ptr (kf_ptr ?N))) (rotation_of (segment3 delta_x 6))"
    and rot': "is_rotation (r_GI (state_ptr (kf_ptr node')))"
    and p': "p_GI (state_ptr (kf_ptr node')) =
             vadd (p_GI (state_ptr (kf_ptr ?N))) (segment3 delta_x 0)"
    using update_keeps_orientation_a_rotation [OF s i rot delta_x_def, of 0] by blast
  have r'': "r_GI (state_ptr (kf_ptr node')) = Mat3 (Vec3 0 0 1) (Vec3 1 0 0) (Vec3 0 1 0)"
    unfolding r' d6 q rotation_of_quarter_x by (simp add: mat_mul_coeffs)
  have p'': "p_GI (state_ptr (kf_ptr node')) = Vec3 (- (pi / 2)) 0 0"
    unfolding p' d0 p by simp
  show ?thesis
    using s i q rot d6 [unfolded delta_x_def] rotation_of_quarter_x c r'' rot' p'' by blast
qed

text \<open>
  Claim C3. For an accepted fix received by an initialized filter, the residual is the
  fix position converted with the anchor \<open>init_lla\<close>, minus the predicted sensor
  position, which is the state position plus the orientation applied to the lever arm.
  The update is carried out, and the state after the callback is the state corrected by
  the gain that \<open>update_K\<close> returns times that residual.
\<close>

theorem accepted_fix_residual:
  assumes "status gps_msg = 2" and "initialized (kf_ptr node)"
  shows "gps_residual ext node (gps_data_of gps_msg) =
           vsub (lla2enu ext (init_lla node)
                   (Vec3 (latitude gps_msg) (longitude gps_msg) (altitude gps_msg)))
                (vadd (p_GI (state_ptr (kf_ptr node)))
                   (mat_vec (r_GI (state_ptr (kf_ptr node))) (I_p_Gps node))) \<and>
         (\<exists>node'. gps_callback ext now node gps_msg = Inr node' \<and>
            state_ptr (kf_ptr node') =
              state_plus
                (state_ptr (update_P (kf_ptr node) (gps_jacobian node)
                   (gps_cov (gps_data_of gps_msg))
                   (update_K ext (kf_ptr node) (gps_jacobian node)
                      (gps_cov (gps_data_of gps_msg)))))
                (dmat_vec3
                   (update_K ext (kf_ptr node) (gps_jacobian node)
                      (gps_cov (gps_data_of gps_msg)))
                   (gps_residual ext node (gps_data_of gps_msg))))"
proof -
  have 1: "gps_residual ext node (gps_data_of gps_msg) =
           vsub (lla2enu ext (init_lla node)
                   (Vec3 (latitude gps_msg) (longitude gps_msg) (altitude gps_msg)))
                (vadd (p_GI (state_ptr (kf_ptr node)))
                   (mat_vec (r_GI (state_ptr (kf_ptr node))) (I_p_Gps node)))"
    by (simp add: gps_residual_def predicted_position_def gps_data_of_def Let_def)
  have 2: "\<exists>node'. gps_callback ext now node gps_msg = Inr node' \<and>
            state_ptr (kf_ptr node') =
              state_plus
                (state_ptr (update_P (kf_ptr node) (gps_jacobian node)
                   (gps_cov (gps_data_of gps_msg))
                   (update_K ext (kf_ptr node) (gps_jacobian node)
                      (gps_cov (gps_data_of gps_msg)))))
                (dmat_vec3
                   (update_K ext (kf_ptr node) (gps_jacobian node)
                      (gps_cov (gps_data_of gps_msg)))
                   (gps_residual ext node (gps_data_of gps_msg)))"
    by (simp add: gps_callback_update [OF assms] gps_update_state)
  show ?thesis using 1 2 by blast
qed

theorem accepted_fix_residual_witness:
  "status ((unit_fix 2 1)\<lparr>latitude := 14, longitude := 26, altitude := 38\<rparr>) = 2 \<and>
   initialized (kf_ptr ((FusionNode_new placed_kf (Vec3 10 20 30))\<lparr>I_p_Gps := Vec3 1 0 0\<rparr>)) \<and>
   lla2enu (flat_externals Map.empty) (Vec3 10 20 30) (Vec3 14 26 38) = Vec3 4 6 8 \<and>
   mat_vec (r_GI (state_ptr placed_kf)) (Vec3 1 0 0) = Vec3 0 1 0 \<and>
   predicted_position ((FusionNode_new placed_kf (Vec3 10 20 30))\<lparr>I_p_Gps := Vec3 1 0 0\<rparr>) =
     Vec3 1 3 3 \<and>
   gps_residual (flat_externals Map.empty)
      ((FusionNode_new placed_kf (Vec3 10 20 30))\<lparr>I_p_Gps := Vec3 1 0 0\<rparr>)
      (gps_data_of ((unit_fix 2 1)\<lparr>latitude := 14, longitude := 26, altitude := 38\<rparr>)) =
     Vec3 3 3 5 \<and>
   (\<exists>node'. gps_callback (flat_externals Map.empty) 0
                ((FusionNode_new placed_kf (Vec3 10 20 30))\<lparr>I_p_Gps := Vec3 1 0 0\<rparr>)
                ((unit_fix 2 1)\<lparr>latitude := 14, longitude := 26, altitude := 38\<rparr>) = Inr node')"
proof -
  let ?N = "(FusionNode_new placed_kf (Vec3 10 20 30))\<lparr>I_p_Gps := Vec3 1 0 0\<rparr>"
  let ?F = "(unit_fix 2 1)\<lparr>latitude := 14, longitude := 26, altitude := 38\<rparr>"
  let ?E = "flat_externals Map.empty"
  have s: "status ?F = 2" by (simp add: unit_fix_def)
  have i: "initialized (kf_ptr ?N)" by (simp add: FusionNode_new_def placed_kf_def running_kf_def)
  note t = accepted_fix_residual [OF s i, of ?E 0]
  have z: "lla2enu ?E (Vec3 10 20 30) (Vec3 14 26 38) = Vec3 4 6 8"
    by (simp add: flat_externals_def)
  have rl: "mat_vec (r_GI (state_ptr placed_kf)) (Vec3 1 0 0) = Vec3 0 1 0"
    by (simp add: placed_kf_def running_kf_def quarter_turn_def)
  have pp: "predicted_position ?N = Vec3 1 3 3"
    by (simp add: predicted_position_def Let_def FusionNode_new_def placed_kf_def running_kf_def
        quarter_turn_def)
  have "gps_residual ?E ?N (gps_data_of ?F) =
        vsub (lla2enu ?E (Vec3 10 20 30) (Vec3 14 26 38))
          (vadd (Vec3 1 2 3) (mat_vec (r_GI (state_ptr placed_kf)) (Vec3 1 0 0)))"
    using t [THEN conjunct1]
    by (simp add: FusionNode_new_def unit_fix_def placed_kf_def running_kf_def)
  then have r: "gps_residual ?E ?N (gps_data_of ?F) = Vec3 3 3 5"
    unfolding z rl by simp
  show ?thesis using s i z rl pp r t [THEN conjunct2] by blast
qed

text \<open>
  Claim C4. The measurement Jacobian, read at every row and column of its 3 by 15
  coefficients: the identity on columns 0 to 2, minus the orientation times the skew
  matrix of the lever arm on columns 6 to 8, and zero elsewhere.
\<close>

theorem jacobian_blocks:
  "i < 3 \<Longrightarrow> j < kStateDim \<Longrightarrow>
   gps_jacobian node i j =
     (if j < 3 then (if i = j then 1 else 0)
      else if 6 \<le> j \<and> j < 9
        then mcoeff (mneg (mat_mul (r_GI (state_ptr (kf_ptr node))) (skew_matrix (I_p_Gps node)))) i (j - 6)
      else 0)"
  by (auto simp: gps_jacobian_def set_block33_def setZero_def mneg_mat_mul mident_def mcoeff_def Let_def)

theorem jacobian_blocks_witness:
  "(1::nat) < 3 \<and> (8::nat) < kStateDim \<and>
   gps_jacobian ((FusionNode_new running_kf (Vec3 0 0 0))\<lparr>I_p_Gps := Vec3 1 2 3\<rparr>) 1 8 = 1"
  using jacobian_blocks [of 1 8 "(FusionNode_new running_kf (Vec3 0 0 0))\<lparr>I_p_Gps := Vec3 1 2 3\<rparr>"]
  by (simp add: kStateDim_def FusionNode_new_def running_kf_def waiting_kf_def origin_state_def
      mident_def mat_mul_coeffs mcoeff_def)

text \<open>
  Claim C5. A message whose quality flag is below the high-confidence value 2 is
  discarded: the callback returns the node it was given with one more console line,
  the warning. The filter object (nominal state and error covariance), the anchor, the
  two topics and the two files are those of the node before the call.
\<close>

theorem rejected_fix_leaves_node_unchanged:
  "sint (status gps_msg) < 2 \<Longrightarrow>
   gps_callback ext now node gps_msg = Inr (node\<lparr>console := console node @ [BadGpsMessage]\<rparr>)"
  by (auto simp: gps_callback_def)

theorem rejected_fix_leaves_node_unchanged_witness:
  "sint (status (unit_fix 0 1)) < 2 \<and>
   gps_callback (flat_externals Map.empty) 0 (FusionNode_new running_kf (Vec3 0 0 0)) (unit_fix 0 1) =
     Inr ((FusionNode_new running_kf (Vec3 0 0 0))\<lparr>console := [BadGpsMessage]\<rparr>)"
  using rejected_fix_leaves_node_unchanged [of "unit_fix 0 1" "flat_externals Map.empty" 0 "FusionNode_new running_kf (Vec3 0 0 0)"]
  by (simp add: unit_fix_def FusionNode_new_def)

text \<open>
  An initialization attempt that fails at the levelling: the buffer holds the required
  100 samples, the fix carries the time of the latest sample, and the levelling returns
  nothing. The callback returns with the filter not initialized, but the state's
  timestamp, 0 before the call, is 1 after it: line 99 assigns it before line 101 calls
  the levelling.
\<close>

theorem levelling_failure_writes_timestamp:
  "levelling (flat_externals Map.empty) (imu_buf waiting_kf) = None \<and>
   gps_callback (flat_externals Map.empty) 0 (FusionNode_new waiting_kf (Vec3 0 0 0)) (unit_fix 2 1) =
     Inr ((FusionNode_new waiting_kf (Vec3 0 0 0))
            \<lparr>kf_ptr := waiting_kf\<lparr>last_imu_ptr := Some (still_sample 1),
                                   state_ptr := origin_state\<lparr>timestamp := 1\<rparr>\<rparr>\<rparr>) \<and>
   state_ptr waiting_kf = origin_state \<and>
   origin_state\<lparr>timestamp := 1\<rparr> \<noteq> origin_state"
proof -
  have "timestamp (origin_state\<lparr>timestamp := 1\<rparr>) \<noteq> timestamp origin_state"
    by (simp add: origin_state_def)
  then have "origin_state\<lparr>timestamp := 1\<rparr> \<noteq> origin_state" by metis
  then show ?thesis
    by (simp add: gps_callback_def gps_initialize_def gps_data_of_def Let_def unit_fix_def
        FusionNode_new_def waiting_kf_def flat_externals_def still_sample_def
        init_rot_from_imudata_def round_to_double_zero)
qed

text \<open>
  Claim C6, amended. If a fix of high confidence reaches a filter that is not initialized
  while the buffer is below \<open>kImuBufSize\<close>, or while the levelling of the buffer cannot
  be computed, the callback returns with the filter still not initialized: the anchor,
  the buffer and every field of the filter state other than its timestamp are unchanged,
  nothing is published or logged, and with the buffer below \<open>kImuBufSize\<close> the whole
  filter object is unchanged. An attempt on a full buffer, synchronized within 0.5 s,
  whose levelling succeeds marks the filter initialized and sets its orientation, its
  timestamp and the anchor. A fix received by an initialized filter leaves it
  initialized and leaves the anchor as it is.
\<close>

theorem initialization_attempts:
  "(status gps_msg = 2 \<and> \<not> initialized (kf_ptr node) \<and>
      (length (imu_buf (kf_ptr node)) < kImuBufSize ext \<or>
       imu_buf (kf_ptr node) \<noteq> [] \<and> levelling ext (imu_buf (kf_ptr node)) = None) \<longrightarrow>
      (\<exists>node'. gps_callback ext now node gps_msg = Inr node' \<and>
         \<not> initialized (kf_ptr node') \<and>
         init_lla node' = init_lla node \<and>
         (\<exists>t. state_ptr (kf_ptr node') = (state_ptr (kf_ptr node))\<lparr>timestamp := t\<rparr>) \<and>
         imu_buf (kf_ptr node') = imu_buf (kf_ptr node) \<and>
         (length (imu_buf (kf_ptr node)) < kImuBufSize ext \<longrightarrow> kf_ptr node' = kf_ptr node) \<and>
         odom_pub node' = odom_pub node \<and> path_pub node' = path_pub node \<and>
         file_gps node' = file_gps node \<and> file_state node' = file_state node)) \<and>
   (status gps_msg = 2 \<and> \<not> initialized (kf_ptr node) \<and>
      kImuBufSize ext \<le> length (imu_buf (kf_ptr node)) \<and> imu_buf (kf_ptr node) \<noteq> [] \<and>
      \<bar>stamp gps_msg - imu_timestamp (last (imu_buf (kf_ptr node)))\<bar> \<le> 0.5 \<and>
      levelling ext (imu_buf (kf_ptr node)) = Some r \<longrightarrow>
      gps_callback ext now node gps_msg =
        Inr (node\<lparr>kf_ptr := (kf_ptr node)
                     \<lparr>initialized := True,
                      last_imu_ptr := Some (last (imu_buf (kf_ptr node))),
                      state_ptr := (state_ptr (kf_ptr node))
                        \<lparr>timestamp := imu_timestamp (last (imu_buf (kf_ptr node))),
                         r_GI := r\<rparr>\<rparr>,
                  init_lla := Vec3 (latitude gps_msg) (longitude gps_msg) (altitude gps_msg),
                  console := console node @ [SystemInitialized]\<rparr>)) \<and>
   (initialized (kf_ptr node) \<and> gps_callback ext now node gps_msg = Inr node' \<longrightarrow>
      initialized (kf_ptr node') \<and> init_lla node' = init_lla node)"
proof (intro conjI impI)
  assume a: "status gps_msg = 2 \<and> \<not> initialized (kf_ptr node) \<and>
      (length (imu_buf (kf_ptr node)) < kImuBufSize ext \<or>
       imu_buf (kf_ptr node) \<noteq> [] \<and> levelling ext (imu_buf (kf_ptr node)) = None)"
  show "\<exists>node'. gps_callback ext now node gps_msg = Inr node' \<and>
         \<not> initialized (kf_ptr node') \<and>
         init_lla node' = init_lla node \<and>
         (\<exists>t. state_ptr (kf_ptr node') = (state_ptr (kf_ptr node))\<lparr>timestamp := t\<rparr>) \<and>
         imu_buf (kf_ptr node') = imu_buf (kf_ptr node) \<and>
         (length (imu_buf (kf_ptr node)) < kImuBufSize ext \<longrightarrow> kf_ptr node' = kf_ptr node) \<and>
         odom_pub node' = odom_pub node \<and> path_pub node' = path_pub node \<and>
         file_gps node' = file_gps node \<and> file_state node' = file_state node"
  proof (cases "length (imu_buf (kf_ptr node)) < kImuBufSize ext")
    case True
    then show ?thesis using a state_up_to_timestamp [of "state_ptr (kf_ptr node)"]
      by (simp add: gps_callback_def gps_initialize_def Let_def)
  next
    case False
    then have b: "imu_buf (kf_ptr node) \<noteq> []" "levelling ext (imu_buf (kf_ptr node)) = None"
      using a by auto
    show ?thesis
    proof (cases "\<bar>round_to_double
                    (stamp gps_msg - imu_timestamp (last (imu_buf (kf_ptr node))))\<bar> > 0.5")
      case True
      then show ?thesis using a b False state_up_to_timestamp [of "state_ptr (kf_ptr node)"]
        by (simp add: gps_callback_def gps_initialize_def gps_data_of_def Let_def)
    next
      case nosync: False
      then show ?thesis using a b False
        by (auto simp: gps_callback_def gps_initialize_def gps_data_of_def Let_def
            init_rot_from_imudata_def)
    qed
  qed
next
  assume h: "status gps_msg = 2 \<and> \<not> initialized (kf_ptr node) \<and>
      kImuBufSize ext \<le> length (imu_buf (kf_ptr node)) \<and> imu_buf (kf_ptr node) \<noteq> [] \<and>
      \<bar>stamp gps_msg - imu_timestamp (last (imu_buf (kf_ptr node)))\<bar> \<le> 0.5 \<and>
      levelling ext (imu_buf (kf_ptr node)) = Some r"
  then have "\<bar>stamp gps_msg - imu_timestamp (last (imu_buf (kf_ptr node)))\<bar> \<le> 1 / 2" by simp
  then have "\<bar>round_to_double
               (stamp gps_msg - imu_timestamp (last (imu_buf (kf_ptr node))))\<bar> \<le> 1 / 2"
    by (rule round_to_double_within_half)
  then have "\<not> \<bar>round_to_double
               (stamp gps_msg - imu_timestamp (last (imu_buf (kf_ptr node))))\<bar> > 0.5"
    by simp
  with h show "gps_callback ext now node gps_msg =
        Inr (node\<lparr>kf_ptr := (kf_ptr node)
                     \<lparr>initialized := True,
                      last_imu_ptr := Some (last (imu_buf (kf_ptr node))),
                      state_ptr := (state_ptr (kf_ptr node))
                        \<lparr>timestamp := imu_timestamp (last (imu_buf (kf_ptr node))),
                         r_GI := r\<rparr>\<rparr>,
                  init_lla := Vec3 (latitude gps_msg) (longitude gps_msg) (altitude gps_msg),
                  console := console node @ [SystemInitialized]\<rparr>)"
    by (simp add: gps_callback_def gps_initialize_def gps_data_of_def Let_def
        init_rot_from_imudata_def)
next
  assume "initialized (kf_ptr node) \<and> gps_callback ext now node gps_msg = Inr node'"
  then show "initialized (kf_ptr node')" using gps_callback_keeps_initialized by blast
next
  assume "initialized (kf_ptr node) \<and> gps_callback ext now node gps_msg = Inr node'"
  then show "init_lla node' = init_lla node" using gps_callback_keeps_initialized by blast
qed

theorem initialization_attempts_witness:
  "status (unit_fix 2 1) = 2 \<and>
   \<not> initialized (kf_ptr (FusionNode_new waiting_kf (Vec3 0 0 0))) \<and>
   imu_buf (kf_ptr (FusionNode_new waiting_kf (Vec3 0 0 0))) \<noteq> [] \<and>
   levelling (flat_externals Map.empty) (imu_buf (kf_ptr (FusionNode_new waiting_kf (Vec3 0 0 0)))) = None \<and>
   (\<exists>node'. gps_callback (flat_externals Map.empty) 0 (FusionNode_new waiting_kf (Vec3 0 0 0))
                (unit_fix 2 1) = Inr node' \<and>
      \<not> initialized (kf_ptr node') \<and> init_lla node' = Vec3 0 0 0 \<and> odom_pub node' = []) \<and>
   levelling (flat_externals (\<lambda>buf. Some mident))
      (imu_buf (kf_ptr (FusionNode_new waiting_kf (Vec3 0 0 0)))) = Some mident \<and>
   gps_callback (flat_externals (\<lambda>buf. Some mident)) 0 (FusionNode_new waiting_kf (Vec3 0 0 0))
      (unit_fix 2 1) =
     Inr ((FusionNode_new waiting_kf (Vec3 0 0 0))
            \<lparr>kf_ptr := waiting_kf
               \<lparr>initialized := True, last_imu_ptr := Some (still_sample 1),
                state_ptr := origin_state\<lparr>timestamp := 1, r_GI := mident\<rparr>\<rparr>,
             init_lla := Vec3 0 0 0, console := [SystemInitialized]\<rparr>)"
proof -
  let ?W = "FusionNode_new waiting_kf (Vec3 0 0 0)"
  have s: "status (unit_fix 2 1) = 2" by (simp add: unit_fix_def)
  have i: "\<not> initialized (kf_ptr ?W)" by (simp add: FusionNode_new_def waiting_kf_def)
  have b: "imu_buf (kf_ptr ?W) \<noteq> []" by (simp add: FusionNode_new_def waiting_kf_def)
  have n: "levelling (flat_externals Map.empty) (imu_buf (kf_ptr ?W)) = None"
    by (simp add: flat_externals_def)
  have k: "kImuBufSize (flat_externals (\<lambda>buf. Some mident)) \<le> length (imu_buf (kf_ptr ?W))"
    by (simp add: flat_externals_def FusionNode_new_def waiting_kf_def)
  have y: "\<bar>stamp (unit_fix 2 1) - imu_timestamp (last (imu_buf (kf_ptr ?W)))\<bar> \<le> 0.5"
    by (simp add: FusionNode_new_def waiting_kf_def unit_fix_def still_sample_def)
  have l: "levelling (flat_externals (\<lambda>buf. Some mident)) (imu_buf (kf_ptr ?W)) = Some mident"
    by (simp add: flat_externals_def)
  have 1: "\<exists>node'. gps_callback (flat_externals Map.empty) 0 ?W (unit_fix 2 1) = Inr node' \<and>
      \<not> initialized (kf_ptr node') \<and> init_lla node' = Vec3 0 0 0 \<and> odom_pub node' = []"
    using initialization_attempts [where gps_msg = "unit_fix 2 1" and node = ?W
        and ext = "flat_externals Map.empty" and now = 0] s i b n
    by (auto simp: FusionNode_new_def)
  have 2: "gps_callback (flat_externals (\<lambda>buf. Some mident)) 0 ?W (unit_fix 2 1) =
     Inr (?W\<lparr>kf_ptr := waiting_kf
               \<lparr>initialized := True, last_imu_ptr := Some (still_sample 1),
                state_ptr := origin_state\<lparr>timestamp := 1, r_GI := mident\<rparr>\<rparr>,
             init_lla := Vec3 0 0 0, console := [SystemInitialized]\<rparr>)"
    using initialization_attempts [where gps_msg = "unit_fix 2 1" and node = ?W
        and ext = "flat_externals (\<lambda>buf. Some mident)" and now = 0 and r = mident]
      s i b k y l
    by (simp add: FusionNode_new_def waiting_kf_def unit_fix_def still_sample_def)
  show ?thesis using s i b n l 1 2 by blast
qed

text \<open>
  A fix more than half a second after the latest buffered sample that is not discarded.
  The buffer holds 100 samples stamped 0.49900000000000005 s and the fix is stamped
  0.9990000000000001 s; both stamps are doubles, and their exact difference is
  \<open>1/2 + 2\<^sup>-\<^sup>5\<^sup>4\<close>. The double nearest to that difference is 0.5 (a tie, resolved to
  the even significand), so the comparison of line 94 is false and the callback goes on:
  it writes the timestamp, levels the buffer, marks the filter initialized and takes the
  anchor from the fix, which replaces the value (7, 7, 7) the node was constructed with.
\<close>

theorem half_second_tie_is_accepted:
  "\<not> initialized (kf_ptr (FusionNode_new early_kf (Vec3 7 7 7))) \<and>
   imu_buf (kf_ptr (FusionNode_new early_kf (Vec3 7 7 7))) \<noteq> [] \<and>
   round_to_double stamp_0999 = stamp_0999 \<and> round_to_double stamp_0499 = stamp_0499 \<and>
   stamp (unit_fix 2 stamp_0999) -
      imu_timestamp (last (imu_buf (kf_ptr (FusionNode_new early_kf (Vec3 7 7 7))))) =
     1 / 2 + 1 / 2 ^ 54 \<and>
   \<bar>stamp (unit_fix 2 stamp_0999) -
      imu_timestamp (last (imu_buf (kf_ptr (FusionNode_new early_kf (Vec3 7 7 7)))))\<bar> > 0.5 \<and>
   gps_callback (flat_externals (\<lambda>buf. Some mident)) 0 (FusionNode_new early_kf (Vec3 7 7 7))
       (unit_fix 2 stamp_0999) =
     Inr ((FusionNode_new early_kf (Vec3 7 7 7))
            \<lparr>kf_ptr := early_kf
               \<lparr>initialized := True, last_imu_ptr := Some (still_sample stamp_0499),
                state_ptr := origin_state\<lparr>timestamp := stamp_0499, r_GI := mident\<rparr>\<rparr>,
             init_lla := Vec3 0 0 0, console := [SystemInitialized]\<rparr>)"
proof -
  let ?W = "FusionNode_new early_kf (Vec3 7 7 7)"
  have 1: "\<not> initialized (kf_ptr ?W)"
    by (simp add: FusionNode_new_def early_kf_def waiting_kf_def)
  have 2: "imu_buf (kf_ptr ?W) \<noteq> []"
    by (simp add: FusionNode_new_def early_kf_def waiting_kf_def)
  have b: "imu_timestamp (last (imu_buf (kf_ptr ?W))) = stamp_0499"
    by (simp add: FusionNode_new_def early_kf_def waiting_kf_def still_sample_def)
  have s: "stamp (unit_fix 2 stamp_0999) = stamp_0999" by (simp add: unit_fix_def)
  have 3: "stamp (unit_fix 2 stamp_0999) - imu_timestamp (last (imu_buf (kf_ptr ?W))) =
           1 / 2 + 1 / 2 ^ 54"
    unfolding b s by (rule stamp_gap)
  have 4: "\<bar>stamp (unit_fix 2 stamp_0999) - imu_timestamp (last (imu_buf (kf_ptr ?W)))\<bar> > 0.5"
    unfolding 3 by simp
  have t: "\<not> \<bar>round_to_double (stamp_0999 - stamp_0499)\<bar> > 0.5"
    unfolding stamp_gap round_to_double_tie_at_half by simp
  have 5: "gps_callback (flat_externals (\<lambda>buf. Some mident)) 0 ?W (unit_fix 2 stamp_0999) =
     Inr (?W\<lparr>kf_ptr := early_kf
               \<lparr>initialized := True, last_imu_ptr := Some (still_sample stamp_0499),
                state_ptr := origin_state\<lparr>timestamp := stamp_0499, r_GI := mident\<rparr>\<rparr>,
             init_lla := Vec3 0 0 0, console := [SystemInitialized]\<rparr>)"
    using t
    by (simp add: gps_callback_def gps_initialize_def gps_data_of_def Let_def unit_fix_def
        FusionNode_new_def early_kf_def waiting_kf_def flat_externals_def still_sample_def
        init_rot_from_imudata_def to_vec3_def)
  show ?thesis using 1 2 3 4 5 stamp_0999_is_double stamp_0499_is_double by blast
qed

text \<open>
  Claim C7, amended. A fix received by a filter that is not initialized is discarded
  when its time difference to the latest buffered sample, subtracted in double
  precision as on line 94, exceeds 0.5 s in absolute value; this is the case whenever
  the exact difference is at least \<open>1/2 + 2\<^sup>-\<^sup>5\<^sup>3\<close> s. The fix is discarded with one
  console line, a warning (the synchronization warning when the fix is of high
  confidence and the buffer is full): the filter stays uninitialized, the anchor and the
  filter state are unchanged, and nothing is published or logged.
\<close>

theorem desynchronized_fix_is_discarded:
  assumes "\<not> initialized (kf_ptr node)" and "imu_buf (kf_ptr node) \<noteq> []"
    and "0.5 < \<bar>round_to_double (stamp gps_msg - imu_timestamp (last (imu_buf (kf_ptr node))))\<bar> \<or>
         1 / 2 + 1 / 2 ^ 53 \<le> \<bar>stamp gps_msg - imu_timestamp (last (imu_buf (kf_ptr node)))\<bar>"
  shows "\<exists>node' w. gps_callback ext now node gps_msg = Inr node' \<and>
           console node' = console node @ [w] \<and> w \<noteq> SystemInitialized \<and>
           (status gps_msg = 2 \<and> kImuBufSize ext \<le> length (imu_buf (kf_ptr node)) \<longrightarrow>
              w = NotSynchronized) \<and>
           \<not> initialized (kf_ptr node') \<and>
           init_lla node' = init_lla node \<and>
           state_ptr (kf_ptr node') = state_ptr (kf_ptr node) \<and>
           imu_buf (kf_ptr node') = imu_buf (kf_ptr node) \<and>
           odom_pub node' = odom_pub node \<and> path_pub node' = path_pub node \<and>
           file_gps node' = file_gps node \<and> file_state node' = file_state node"
proof -
  have "0.5 < \<bar>round_to_double (stamp gps_msg - imu_timestamp (last (imu_buf (kf_ptr node))))\<bar>"
    using assms(3) round_to_double_beyond_half
      [of "stamp gps_msg - imu_timestamp (last (imu_buf (kf_ptr node)))"]
    by auto
  then show ?thesis
    using assms(1,2)
    by (auto simp: gps_callback_def gps_initialize_def gps_data_of_def Let_def)
qed

theorem desynchronized_fix_is_discarded_witness:
  "\<not> initialized (kf_ptr (FusionNode_new waiting_kf (Vec3 0 0 0))) \<and>
   imu_buf (kf_ptr (FusionNode_new waiting_kf (Vec3 0 0 0))) \<noteq> [] \<and>
   1 / 2 + 1 / 2 ^ 53 \<le> \<bar>stamp (unit_fix 2 2) -
      imu_timestamp (last (imu_buf (kf_ptr (FusionNode_new waiting_kf (Vec3 0 0 0)))))\<bar> \<and>
   gps_callback (flat_externals (\<lambda>buf. Some mident)) 0 (FusionNode_new waiting_kf (Vec3 0 0 0))
       (unit_fix 2 2) =
     Inr ((FusionNode_new waiting_kf (Vec3 0 0 0))
            \<lparr>kf_ptr := waiting_kf\<lparr>last_imu_ptr := Some (still_sample 1)\<rparr>,
             console := [NotSynchronized]\<rparr>)"
proof -
  let ?W = "FusionNode_new waiting_kf (Vec3 0 0 0)"
  let ?E = "flat_externals (\<lambda>buf. Some mident)"
  have 1: "\<not> initialized (kf_ptr ?W)"
    by (simp add: FusionNode_new_def waiting_kf_def)
  have 2: "imu_buf (kf_ptr ?W) \<noteq> []"
    by (simp add: FusionNode_new_def waiting_kf_def)
  have 3: "1 / 2 + 1 / 2 ^ 53 \<le> \<bar>stamp (unit_fix 2 2) - imu_timestamp (last (imu_buf (kf_ptr ?W)))\<bar>"
    by (simp add: FusionNode_new_def waiting_kf_def unit_fix_def still_sample_def)
  obtain node' w where
    r: "gps_callback ?E 0 ?W (unit_fix 2 2) = Inr node'"
    and c: "console node' = console ?W @ [w]"
    and n: "status (unit_fix 2 2) = 2 \<and> kImuBufSize ?E \<le> length (imu_buf (kf_ptr ?W)) \<longrightarrow>
              w = NotSynchronized"
    and u: "\<not> initialized (kf_ptr node')" "init_lla node' = init_lla ?W"
      "state_ptr (kf_ptr node') = state_ptr (kf_ptr ?W)"
      "imu_buf (kf_ptr node') = imu_buf (kf_ptr ?W)"
      "odom_pub node' = odom_pub ?W" "path_pub node' = path_pub ?W"
      "file_gps node' = file_gps ?W" "file_state node' = file_state ?W"
    using desynchronized_fix_is_discarded [OF 1 2 disjI2, OF 3, of ?E 0] by blast
  have t: "1 / 2 < \<bar>round_to_double 1\<bar>"
    by (rule round_to_double_beyond_half) simp
  have "gps_callback ?E 0 ?W (unit_fix 2 2) =
     Inr (?W\<lparr>kf_ptr := waiting_kf\<lparr>last_imu_ptr := Some (still_sample 1)\<rparr>,
             console := [NotSynchronized]\<rparr>)"
    using t
    by (simp add: gps_callback_def gps_initialize_def gps_data_of_def Let_def unit_fix_def
        FusionNode_new_def waiting_kf_def flat_externals_def still_sample_def)
  then show ?thesis using 1 2 3 r by simp
qed

text \<open>
  Claim C9. When an accepted fix reaches an initialized filter, the update is carried
  out and one odometry message is published; its covariance array has 36 entries, which
  are, row by row, the position-position block (rows and columns from 0), the
  position-orientation block (columns from 6), the orientation-position block (rows from
  6) and the orientation-orientation block of the error covariance of the updated state.
\<close>

theorem published_pose_covariance:
  assumes "status gps_msg = 2" and "initialized (kf_ptr node)"
  shows "\<exists>node' msg. gps_callback ext now node gps_msg = Inr node' \<and>
           odom_pub node' = odom_pub node @ [msg] \<and> length (pose_covariance msg) = 36 \<and>
           (\<forall>i<3. \<forall>j<3.
              pose_covariance msg ! (6 * i + j) = cov (state_ptr (kf_ptr node')) i j \<and>
              pose_covariance msg ! (6 * i + (3 + j)) = cov (state_ptr (kf_ptr node')) i (6 + j) \<and>
              pose_covariance msg ! (6 * (3 + i) + j) = cov (state_ptr (kf_ptr node')) (6 + i) j \<and>
              pose_covariance msg ! (6 * (3 + i) + (3 + j)) =
                cov (state_ptr (kf_ptr node')) (6 + i) (6 + j))"
proof -
  define node' where "node' = gps_update ext now node (gps_data_of gps_msg)"
  have c: "gps_callback ext now node gps_msg = Inr node'"
    unfolding node'_def using assms by (rule gps_callback_update)
  obtain msg where o: "odom_pub node' = odom_pub node @ [msg]"
    and m: "pose_covariance msg = pose_covariance_of (cov (state_ptr (kf_ptr node')))"
    unfolding node'_def using gps_update_odom by blast
  have len: "length (pose_covariance msg) = 36" by (simp add: m pose_covariance_of_def)
  have ent: "pose_covariance msg ! (6 * i + j) = cov (state_ptr (kf_ptr node')) i j \<and>
              pose_covariance msg ! (6 * i + (3 + j)) = cov (state_ptr (kf_ptr node')) i (6 + j) \<and>
              pose_covariance msg ! (6 * (3 + i) + j) = cov (state_ptr (kf_ptr node')) (6 + i) j \<and>
              pose_covariance msg ! (6 * (3 + i) + (3 + j)) =
                cov (state_ptr (kf_ptr node')) (6 + i) (6 + j)"
    if i: "i < 3" and j: "j < 3" for i j
  proof -
    have i6: "i < 6" "3 + i < 6" "j < 6" "3 + j < 6" using i j by simp_all
    have 1: "pose_covariance msg ! (6 * i + j) = cov (state_ptr (kf_ptr node')) i j"
      using nth_pose_covariance_of [OF i6(1) i6(3)] i j by (simp add: m)
    have 2: "pose_covariance msg ! (6 * i + (3 + j)) = cov (state_ptr (kf_ptr node')) i (6 + j)"
      using nth_pose_covariance_of [OF i6(1) i6(4)] i j by (simp add: m add.commute)
    have 3: "pose_covariance msg ! (6 * (3 + i) + j) = cov (state_ptr (kf_ptr node')) (6 + i) j"
      using nth_pose_covariance_of [OF i6(2) i6(3)] i j by (simp add: m add.commute)
    have 4: "pose_covariance msg ! (6 * (3 + i) + (3 + j)) =
               cov (state_ptr (kf_ptr node')) (6 + i) (6 + j)"
      using nth_pose_covariance_of [OF i6(2) i6(4)] i j by (simp add: m add.commute)
    show ?thesis using 1 2 3 4 by blast
  qed
  show ?thesis using c o len ent by blast
qed

theorem published_pose_covariance_witness:
  "\<exists>node' msg. status (unit_fix 2 1) = 2 \<and>
     initialized (kf_ptr (FusionNode_new lopsided_kf (Vec3 0 0 0))) \<and>
     gps_callback (flat_externals Map.empty) 0 (FusionNode_new lopsided_kf (Vec3 0 0 0))
        (unit_fix 2 1) = Inr node' \<and>
     odom_pub node' = [msg] \<and> length (pose_covariance msg) = 36 \<and>
     cov (state_ptr (kf_ptr node')) 1 1 = 1 / 2 \<and> pose_covariance msg ! 7 = 1 / 2 \<and>
     cov (state_ptr (kf_ptr node')) 1 8 = 1 / 4 \<and> pose_covariance msg ! 11 = 1 / 4 \<and>
     cov (state_ptr (kf_ptr node')) 8 1 = 1 / 8 \<and> pose_covariance msg ! 31 = 1 / 8 \<and>
     cov (state_ptr (kf_ptr node')) 7 8 = 1 / 3 \<and> pose_covariance msg ! 29 = 1 / 3 \<and>
     cov (state_ptr (kf_ptr node')) 8 7 = 1 / 5 \<and> pose_covariance msg ! 34 = 1 / 5 \<and>
     cov (state_ptr (kf_ptr node')) 1 5 = 0"
proof -
  let ?N = "FusionNode_new lopsided_kf (Vec3 0 0 0)"
  let ?E = "flat_externals Map.empty"
  have s: "status (unit_fix 2 1) = 2" by (simp add: unit_fix_def)
  have i: "initialized (kf_ptr ?N)"
    by (simp add: FusionNode_new_def lopsided_kf_def running_kf_def)
  have o: "odom_pub ?N = []" by (simp add: FusionNode_new_def)
  obtain node' msg where
    c: "gps_callback ?E 0 ?N (unit_fix 2 1) = Inr node'"
    and m: "odom_pub node' = [msg]" "length (pose_covariance msg) = 36"
    and e: "\<forall>i<3. \<forall>j<3.
              pose_covariance msg ! (6 * i + j) = cov (state_ptr (kf_ptr node')) i j \<and>
              pose_covariance msg ! (6 * i + (3 + j)) = cov (state_ptr (kf_ptr node')) i (6 + j) \<and>
              pose_covariance msg ! (6 * (3 + i) + j) = cov (state_ptr (kf_ptr node')) (6 + i) j \<and>
              pose_covariance msg ! (6 * (3 + i) + (3 + j)) =
                cov (state_ptr (kf_ptr node')) (6 + i) (6 + j)"
    using published_pose_covariance [OF s i, of ?E 0] unfolding o by auto
  have n: "node' = gps_update ?E 0 ?N (gps_data_of (unit_fix 2 1))"
    using c by (simp add: gps_callback_update [OF s i])
  have v11: "cov (state_ptr (kf_ptr node')) 1 1 = 1 / 2"
    unfolding n by (subst lopsided_update) (simp_all add: kStateDim_def sum_upto_3 lopsided_kf_def)
  have v18: "cov (state_ptr (kf_ptr node')) 1 8 = 1 / 4"
    unfolding n by (subst lopsided_update) (simp_all add: kStateDim_def sum_upto_3 lopsided_kf_def)
  have v81: "cov (state_ptr (kf_ptr node')) 8 1 = 1 / 8"
    unfolding n by (subst lopsided_update) (simp_all add: kStateDim_def sum_upto_3 lopsided_kf_def)
  have v78: "cov (state_ptr (kf_ptr node')) 7 8 = 1 / 3"
    unfolding n by (subst lopsided_update) (simp_all add: kStateDim_def sum_upto_3 lopsided_kf_def)
  have v87: "cov (state_ptr (kf_ptr node')) 8 7 = 1 / 5"
    unfolding n by (subst lopsided_update) (simp_all add: kStateDim_def sum_upto_3 lopsided_kf_def)
  have v15: "cov (state_ptr (kf_ptr node')) 1 5 = 0"
    unfolding n by (subst lopsided_update) (simp_all add: kStateDim_def sum_upto_3 lopsided_kf_def)
  have e7: "pose_covariance msg ! 7 = cov (state_ptr (kf_ptr node')) 1 1"
    using e [rule_format, of 1 1] by simp
  have e11: "pose_covariance msg ! 11 = cov (state_ptr (kf_ptr node')) 1 8"
    using e [rule_format, of 1 2] by simp
  have e31: "pose_covariance msg ! 31 = cov (state_ptr (kf_ptr node')) 8 1"
    using e [rule_format, of 2 1] by simp
  have e29: "pose_covariance msg ! 29 = cov (state_ptr (kf_ptr node')) 7 8"
    using e [rule_format, of 1 2] by simp
  have e34: "pose_covariance msg ! 34 = cov (state_ptr (kf_ptr node')) 8 7"
    using e [rule_format, of 2 1] by simp
  show ?thesis
    using s i c m v11 v18 v81 v78 v87 v15 e7 e11 e31 e29 e34 by (intro exI [of _ node'] exI [of _ msg]) simp
qed

text \<open>
  Claim C10. In every state the node can reach from its constructor, the lever arm is
  the zero vector; so the predicted sensor position is the state position, and the
  orientation-error block of the measurement Jacobian (columns 6 to 8) is zero.
\<close>

theorem lever_arm_always_zero:
  assumes "reachable ext node"
  shows "I_p_Gps node = Vec3 0 0 0 \<and>
         predicted_position node = p_GI (state_ptr (kf_ptr node)) \<and>
         block33 (gps_jacobian node) 0 6 = mzero"
proof -
  have l: "I_p_Gps node = Vec3 0 0 0" using assms by (rule reachable_lever)
  have "block33 (gps_jacobian node) 0 6 = mzero"
    by (simp add: block33_def to_mat3_def to_vec3_def jacobian_zero_lever [OF l] mzero_def vzero_def)
  then show ?thesis using l predicted_zero_lever [OF l] by simp
qed

theorem lever_arm_always_zero_witness:
  "reachable (flat_externals Map.empty)
     ((FusionNode_new running_kf (Vec3 0 0 0))\<lparr>console := [BadGpsMessage]\<rparr>) \<and>
   I_p_Gps ((FusionNode_new running_kf (Vec3 0 0 0))\<lparr>console := [BadGpsMessage]\<rparr>) = Vec3 0 0 0 \<and>
   predicted_position ((FusionNode_new running_kf (Vec3 0 0 0))\<lparr>console := [BadGpsMessage]\<rparr>) =
     Vec3 0 0 0 \<and>
   block33 (gps_jacobian ((FusionNode_new running_kf (Vec3 0 0 0))\<lparr>console := [BadGpsMessage]\<rparr>)) 0 6 =
     mzero"
proof -
  have c: "gps_callback (flat_externals Map.empty) 0 (FusionNode_new running_kf (Vec3 0 0 0)) (unit_fix 0 1) =
     Inr ((FusionNode_new running_kf (Vec3 0 0 0))\<lparr>console := [BadGpsMessage]\<rparr>)"
    by (simp add: gps_callback_def unit_fix_def FusionNode_new_def)
  have r: "reachable (flat_externals Map.empty)
     ((FusionNode_new running_kf (Vec3 0 0 0))\<lparr>console := [BadGpsMessage]\<rparr>)"
    using reach_gps [OF reach_new c] .
  show ?thesis using r lever_arm_always_zero [OF r]
    by (simp add: FusionNode_new_def running_kf_def waiting_kf_def origin_state_def)
qed

end
